theory Spec2Isabelle
  imports Complex_Main
begin

section \<open>Double-precision numbers\<close>

text \<open>
  The solver of \<^verbatim>\<open>sqp_internal.cpp\<close> and the function \<^verbatim>\<open>Evaluation::evaluate\<close>
  compute with values of the type \<^verbatim>\<open>double\<close>. A double is a finite number, an
  infinity or NaN. An arithmetic operation on finite numbers is the exact operation on
  the reals followed by the rounding \<open>fl\<close> to the nearest number with a significand of
  53 bits, with ties to the even significand, as IEEE 754 prescribes for binary64;
  every operation of the source rounds on its own (no fused multiply-add).

  Three features of binary64 are left out. The exponent has no bounds here: \<open>fl\<close>
  keeps 53 bits whatever the magnitude, so there is no overflow to an infinity and no
  gradual underflow. Zero has no sign, so a quotient with the divisor zero takes its
  sign from the dividend alone. And a \<open>Fin x\<close> may hold any real \<open>x\<close>: the
  operations below return numbers that \<open>fl\<close> leaves as they are, and where a theorem
  needs its inputs to be such numbers it says so.
\<close>

datatype double = Fin real | PInf | NInf | NaN

text \<open>Rounding of a real to the nearest integer, ties to even.\<close>

definition rne :: "real \<Rightarrow> int" where
  "rne r = (let f = \<lfloor>r\<rfloor>
            in if r - of_int f < 1 / 2 then f
               else if 1 / 2 < r - of_int f then f + 1
               else if even f then f else f + 1)"

text \<open>
  The exponent \<open>e\<close> of a nonzero \<open>x\<close>, with \<open>2\<^sup>e \<le> |x| < 2\<^sup>e\<^sup>+\<^sup>1\<close>, and the rounding:
  \<open>x\<close> is rounded to a multiple of \<open>2\<^sup>e\<^sup>-\<^sup>5\<^sup>2\<close>.
\<close>

definition expo :: "real \<Rightarrow> int" where
  "expo x = \<lfloor>log 2 \<bar>x\<bar>\<rfloor>"

definition fl :: "real \<Rightarrow> real" where
  "fl x = (if x = 0 then 0
           else of_int (rne (x / 2 powi (expo x - 52))) * 2 powi (expo x - 52))"

text \<open>
  \<open>dbl x\<close> is the double that a decimal literal of the source with the value \<open>x\<close>
  denotes, such as \<^verbatim>\<open>0.2\<close> or \<^verbatim>\<open>1E-20\<close>.
\<close>

definition dbl :: "real \<Rightarrow> double" where
  "dbl x = Fin (fl x)"

text \<open>
  The operations \<^verbatim>\<open>+\<close>, \<^verbatim>\<open>-\<close>, \<^verbatim>\<open>*\<close>, \<^verbatim>\<open>/\<close>, \<^verbatim>\<open>fabs\<close> and the comparisons
  \<^verbatim>\<open><\<close> and \<^verbatim>\<open><=\<close> of doubles. A comparison with NaN is false. \<open>1 / x\<close> is also
  written \<open>inverse x\<close>.
\<close>

instantiation double :: "{zero, one, plus, minus, uminus, times, inverse, abs, ord}"
begin

definition zero_double :: double where
  "zero_double = Fin 0"

definition one_double :: double where
  "one_double = Fin 1"

fun uminus_double :: "double \<Rightarrow> double" where
  "uminus_double (Fin a) = Fin (- a)"
| "uminus_double PInf = NInf"
| "uminus_double NInf = PInf"
| "uminus_double NaN = NaN"

fun abs_double :: "double \<Rightarrow> double" where
  "abs_double (Fin a) = Fin \<bar>a\<bar>"
| "abs_double PInf = PInf"
| "abs_double NInf = PInf"
| "abs_double NaN = NaN"

fun plus_double :: "double \<Rightarrow> double \<Rightarrow> double" where
  "plus_double (Fin a) (Fin b) = Fin (fl (a + b))"
| "plus_double NaN y = NaN"
| "plus_double x NaN = NaN"
| "plus_double PInf NInf = NaN"
| "plus_double NInf PInf = NaN"
| "plus_double PInf y = PInf"
| "plus_double x PInf = PInf"
| "plus_double NInf y = NInf"
| "plus_double x NInf = NInf"

fun minus_double :: "double \<Rightarrow> double \<Rightarrow> double" where
  "minus_double (Fin a) (Fin b) = Fin (fl (a - b))"
| "minus_double NaN y = NaN"
| "minus_double x NaN = NaN"
| "minus_double PInf PInf = NaN"
| "minus_double NInf NInf = NaN"
| "minus_double PInf y = PInf"
| "minus_double x NInf = PInf"
| "minus_double NInf y = NInf"
| "minus_double x PInf = NInf"

fun times_double :: "double \<Rightarrow> double \<Rightarrow> double" where
  "times_double (Fin a) (Fin b) = Fin (fl (a * b))"
| "times_double NaN y = NaN"
| "times_double x NaN = NaN"
| "times_double (Fin a) PInf = (if a = 0 then NaN else if 0 < a then PInf else NInf)"
| "times_double (Fin a) NInf = (if a = 0 then NaN else if 0 < a then NInf else PInf)"
| "times_double PInf (Fin b) = (if b = 0 then NaN else if 0 < b then PInf else NInf)"
| "times_double NInf (Fin b) = (if b = 0 then NaN else if 0 < b then NInf else PInf)"
| "times_double PInf PInf = PInf"
| "times_double PInf NInf = NInf"
| "times_double NInf PInf = NInf"
| "times_double NInf NInf = PInf"

fun divide_double :: "double \<Rightarrow> double \<Rightarrow> double" where
  "divide_double (Fin a) (Fin b) =
     (if b = 0 then (if a = 0 then NaN else if 0 < a then PInf else NInf)
      else Fin (fl (a / b)))"
| "divide_double NaN y = NaN"
| "divide_double x NaN = NaN"
| "divide_double (Fin a) PInf = Fin 0"
| "divide_double (Fin a) NInf = Fin 0"
| "divide_double PInf (Fin b) = (if 0 \<le> b then PInf else NInf)"
| "divide_double NInf (Fin b) = (if 0 \<le> b then NInf else PInf)"
| "divide_double PInf y = NaN"
| "divide_double NInf y = NaN"

fun inverse_double :: "double \<Rightarrow> double" where
  "inverse_double (Fin b) = (if b = 0 then PInf else Fin (fl (1 / b)))"
| "inverse_double PInf = Fin 0"
| "inverse_double NInf = Fin 0"
| "inverse_double NaN = NaN"

fun less_double :: "double \<Rightarrow> double \<Rightarrow> bool" where
  "less_double (Fin a) (Fin b) = (a < b)"
| "less_double NaN y = False"
| "less_double x NaN = False"
| "less_double x NInf = False"
| "less_double PInf y = False"
| "less_double NInf y = True"
| "less_double x PInf = True"

fun less_eq_double :: "double \<Rightarrow> double \<Rightarrow> bool" where
  "less_eq_double (Fin a) (Fin b) = (a \<le> b)"
| "less_eq_double NaN y = False"
| "less_eq_double x NaN = False"
| "less_eq_double NInf y = True"
| "less_eq_double x PInf = True"
| "less_eq_double x NInf = False"
| "less_eq_double PInf y = False"

instance ..

end


definition finite_double :: "double \<Rightarrow> bool" where
  "finite_double v = (case v of Fin x \<Rightarrow> fl x = x | _ \<Rightarrow> False)"

text \<open>The real number that a finite double stands for.\<close>

definition val :: "double \<Rightarrow> real" where
  "val v = (case v of Fin x \<Rightarrow> x | _ \<Rightarrow> 0)"

section \<open>Dense vectors and sparse matrices\<close>

text \<open>
  The solver works on \<^verbatim>\<open>std::vector<double>\<close> and on \<^verbatim>\<open>DMatrix\<close> values. A dense
  vector is the list of its entries. A \<^verbatim>\<open>DMatrix\<close> is kept row by row as the source
  reads it through its compressed-row pattern: row \<open>i\<close> is the list of its stored
  entries \<open>(col[el], data[el])\<close> for \<open>el\<close> from \<open>rowind[i]\<close> up to \<open>rowind[i+1]\<close>.
  The functions \<^verbatim>\<open>inner_prod\<close>, \<^verbatim>\<open>norm_1\<close> and \<^verbatim>\<open>mul\<close> of the matrix library are
  not part of the two source files; they are taken to add up their terms from \<open>0\<close> in
  the order of the index (\<open>sum_from_zero\<close>).
\<close>

type_synonym vec = "double list"

type_synonym smatrix = "(nat \<times> double) list list"

text \<open>\<open>finite_matrix H\<close>: every stored entry of \<open>H\<close> is a finite double.\<close>

definition finite_matrix :: "smatrix \<Rightarrow> bool" where
  "finite_matrix H = (\<forall>row \<in> set H. \<forall>(j, v) \<in> set row. finite_double v)"

definition sum_from_zero :: "double list \<Rightarrow> double" where
  "sum_from_zero xs = foldl (+) 0 xs"

definition inner_prod :: "vec \<Rightarrow> vec \<Rightarrow> double" where
  "inner_prod a b = sum_from_zero (map2 (*) a b)"

definition norm_1 :: "vec \<Rightarrow> double" where
  "norm_1 a = sum_from_zero (map abs a)"

text \<open>\<^verbatim>\<open>B(i,j).elem(0)\<close>: the stored entry, and zero where the pattern has none.\<close>

definition elem :: "smatrix \<Rightarrow> nat \<Rightarrow> nat \<Rightarrow> double" where
  "elem B i j = (case map_of (B ! i) j of None \<Rightarrow> 0 | Some v \<Rightarrow> v)"

text \<open>\<^verbatim>\<open>mul(B, v)\<close> for a column vector \<open>v\<close>.\<close>

definition mul :: "smatrix \<Rightarrow> vec \<Rightarrow> vec" where
  "mul B v = map (\<lambda>row. sum_from_zero (map (\<lambda>(j, a). a * v ! j) row)) B"

text \<open>\<^verbatim>\<open>DMatrix::eye(n)\<close> after \<^verbatim>\<open>makeDense\<close>.\<close>

definition eye_dense :: "nat \<Rightarrow> smatrix" where
  "eye_dense n = map (\<lambda>i. map (\<lambda>j. (j, if i = j then 1 else 0)) [0..<n]) [0..<n]"

text \<open>\<^verbatim>\<open>diag(diag(B))\<close>: only the diagonal is kept.\<close>

definition diag_diag :: "smatrix \<Rightarrow> smatrix" where
  "diag_diag B = map (\<lambda>i. [(i, elem B i i)]) [0..<length B]"

text \<open>\<^verbatim>\<open>B + theta * mul(y, y.trans()) - phi * mul(q, q.trans())\<close>, a dense matrix.\<close>

definition rank2 :: "smatrix \<Rightarrow> double \<Rightarrow> vec \<Rightarrow> double \<Rightarrow> vec \<Rightarrow> smatrix" where
  "rank2 B theta y phi q =
     map (\<lambda>i. map (\<lambda>j. (j, elem B i j + theta * (y ! i * y ! j) - phi * (q ! i * q ! j)))
                [0..<length B])
         [0..<length B]"

section \<open>Damped BFGS update (limited-memory mode)\<close>

text \<open>
  Lines 486 to 492 of \<^verbatim>\<open>SQPInternal::evaluate\<close>: the damping factor \<open>omega\<close> from
  \<open>sk\<close>, \<open>yk\<close> and \<open>qk = mul(Bk, sk)\<close>, and the damped \<open>yk\<close>.
\<close>

definition powell_omega :: "vec \<Rightarrow> vec \<Rightarrow> vec \<Rightarrow> double" where
  "powell_omega sk yk qk =
     (if inner_prod yk sk < dbl 0.2 * inner_prod sk qk
      then (let skBksk = inner_prod sk qk
            in dbl 0.8 * skBksk / (skBksk - inner_prod sk yk))
      else 1)"

definition damp_yk :: "double \<Rightarrow> vec \<Rightarrow> vec \<Rightarrow> vec" where
  "damp_yk omega yk qk = map2 (\<lambda>y q. omega * y + (1 - omega) * q) yk qk"

text \<open>
  Lines 479 to 498: the restart every \<open>lbfgs_memory\<close> iterations, then the rank-two
  update. Line 480 takes the remainder \<^verbatim>\<open>it_counter % lbfgs_memory_\<close> of an integer
  division. For \<open>lbfgs_memory_ = 0\<close> the behaviour of \<^verbatim>\<open>%\<close> is undefined and the
  processor traps; the model ends the run there with the error \<open>Modulo_by_zero\<close>. For
  every other divisor the remainder of C++ is zero exactly when \<open>mod\<close> is. Where
  an inner product in a denominator is zero the quotient is an infinity, and the matrix
  gets entries that are infinite or NaN.
\<close>

datatype sqp_error = Modulo_by_zero

definition bfgs_update ::
  "int \<Rightarrow> int \<Rightarrow> smatrix \<Rightarrow> vec \<Rightarrow> vec \<Rightarrow> vec \<Rightarrow> vec \<Rightarrow> sqp_error + smatrix" where
  "bfgs_update it_counter lbfgs_memory Bk x x_old gLag gLag_old_bfgs =
     (if lbfgs_memory = 0 then Inl Modulo_by_zero
      else Inr
        (let Bk1 = (if it_counter mod lbfgs_memory = 0 then diag_diag Bk else Bk);
             sk = map2 (-) x x_old;
             yk = map2 (-) gLag gLag_old_bfgs;
             qk = mul Bk1 sk;
             omega = powell_omega sk yk qk;
             yk_damped = damp_yk omega yk qk;
             theta = 1 / inner_prod sk yk_damped;
             phi = 1 / inner_prod qk sk
         in rank2 Bk1 theta yk_damped phi qk))"

section \<open>Gershgorin regularisation (exact-Hessian mode)\<close>

text \<open>
  Lines 210 to 238. The inner loop over the stored entries of row \<open>i\<close> adds up the
  absolute values off the diagonal; the outer loop keeps in \<open>reg_param\<close> the least
  value of \<open>Bk(i,i) - radius\<close> seen so far, starting from \<open>0\<close>.
\<close>

definition gershgorin_radius :: "smatrix \<Rightarrow> nat \<Rightarrow> double" where
  "gershgorin_radius Bk i =
     fold (\<lambda>(j, v) radius. if i \<noteq> j then radius + \<bar>v\<bar> else radius) (Bk ! i) 0"

definition reg_step :: "smatrix \<Rightarrow> nat \<Rightarrow> double \<Rightarrow> double" where
  "reg_step Bk i reg_param =
     (let mineig = elem Bk i i - gershgorin_radius Bk i
      in if mineig < reg_param then mineig else reg_param)"

definition gershgorin_reg_param :: "smatrix \<Rightarrow> double" where
  "gershgorin_reg_param Bk = fold (reg_step Bk) [0..<length Bk] 0"

text \<open>
  \<^verbatim>\<open>Bk += c * DMatrix::eye(Bk.size1())\<close>: the product of \<open>c\<close> and the entry \<open>1\<close>
  of the identity is added to the diagonal entry of every row, and a row whose pattern
  has no diagonal entry gets one (where in the row it is stored does not matter to
  \<open>elem\<close> or the radius). The other entries are as they were.
\<close>

definition add_eye :: "double \<Rightarrow> smatrix \<Rightarrow> smatrix" where
  "add_eye c Bk =
     map (\<lambda>i. case map_of (Bk ! i) i of
                 None \<Rightarrow> Bk ! i @ [(i, c * 1)]
               | Some d \<Rightarrow> map (\<lambda>(j, v). (j, if j = i then v + c * 1 else v)) (Bk ! i))
         [0..<length Bk]"

definition regularize_Bk :: "smatrix \<Rightarrow> smatrix" where
  "regularize_Bk Bk =
     (let reg_param = gershgorin_reg_param Bk
      in if reg_param < 0 then add_eye (- reg_param) Bk else add_eye 0 Bk)"

section \<open>The SQP driver: data\<close>

text \<open>
  The collaborators of the driver are opaque function objects; they enter the model as
  functions. \<open>F_adjSens x\<close> is the adjoint sensitivity of \<open>F_\<close> at input \<open>x\<close> for the
  adjoint seed \<open>1.0\<close>, \<open>F_fwdSens x p\<close> its forward sensitivity for the seed \<open>p\<close>,
  \<open>G_adjSens x mu\<close> the adjoint sensitivity of \<open>G_\<close> at \<open>x\<close> for the seed \<open>mu\<close>.
  \<open>G_fx\<close> is \<open>None\<close> when \<^verbatim>\<open>G_.isNull()\<close>, and so is \<open>callback\<close>. The Hessian
  evaluator gets \<open>x\<close> and, when it has more than one input, \<open>mu\<close> and the factor \<open>1\<close>.
  The callback is an arbitrary function object whose answer may change from one call
  to the next; it is called once per iteration, so the model hands it the iteration
  counter together with its input slots. All collaborators are taken to return, with
  results of the dimensions \<open>n_\<close> and \<open>m_\<close>; an exception raised inside one of them is
  outside this model.
\<close>

text \<open>
  The options as \<open>init\<close> reads them into the members of the solver, the dimensions
  \<open>n_\<close> (\<open>n_dim\<close>) and \<open>m_\<close> (\<open>m_dim\<close>) of the problem, and \<open>n_hess_in\<close>, the number of
  inputs of the Hessian evaluator without the parameter. The option \<open>monitor\<close> only
  prints and is left out, and so is the parameter of a parametric problem, which is
  passed to the evaluators once and never changed.
\<close>

datatype hessian_mode = Limited_memory | Exact

record sqp_options =
  hessian_approximation :: hessian_mode
  regularize :: bool
  maxiter :: int
  maxiter_ls :: int
  c1 :: double
  beta :: double
  merit_memsize :: nat
  lbfgs_memory :: int
  tol_pr :: double
  tol_du :: double
  n_hess_in :: int
  n_dim :: nat
  m_dim :: nat

record nlp_input =
  NLP_X_INIT :: vec
  NLP_LBX :: vec
  NLP_UBX :: vec
  NLP_LBG :: vec
  NLP_UBG :: vec

record qp_input =
  QP_H :: smatrix
  QP_G :: vec
  QP_A :: smatrix
  QP_LBA :: vec
  QP_UBA :: vec
  QP_LBX :: vec
  QP_UBX :: vec
  QP_X_INIT :: vec

record qp_output =
  QP_PRIMAL :: vec
  QP_LAMBDA_A :: vec
  QP_LAMBDA_X :: vec

record callback_input =
  CB_COST :: double
  CB_X_OPT :: vec
  CB_LAMBDA_G :: vec
  CB_LAMBDA_X :: vec
  CB_G :: vec

record collaborators =
  F_eval :: "vec \<Rightarrow> double"
  F_adjSens :: "vec \<Rightarrow> vec"
  F_fwdSens :: "vec \<Rightarrow> vec \<Rightarrow> double"
  G_fx :: "(vec \<Rightarrow> vec) option"
  G_adjSens :: "vec \<Rightarrow> vec \<Rightarrow> vec"
  J_eval :: "vec \<Rightarrow> smatrix"
  H_eval :: "vec \<Rightarrow> (vec \<times> double) option \<Rightarrow> smatrix"
  qp_solver :: "qp_input \<Rightarrow> qp_output"
  callback :: "(int \<Rightarrow> callback_input \<Rightarrow> double) option"

text \<open>One line of the iteration log (lines 543 to 556), and what else is printed.\<close>

record log_line =
  log_it :: int
  log_obj :: double
  log_pr_inf :: double
  log_du_inf :: double
  log_corr_norm :: double
  log_stepsize :: double
  log_ls_trials :: int
  log_ls_success :: char

datatype event =
    Header
  | Warning_indefinite_Hessian
  | Iterate log_line
  | Aborted_by_callback
  | Convergence_achieved int
  | Maximum_iterations_reached

datatype exit_reason = Callback_abort | Converged | Iteration_cap

text \<open>
  The state of \<^verbatim>\<open>SQPInternal::evaluate\<close>: the members \<^verbatim>\<open>x_\<close>, \<^verbatim>\<open>x_old_\<close>,
  \<^verbatim>\<open>x_cand_\<close>, \<^verbatim>\<open>mu_\<close>, \<^verbatim>\<open>mu_x_\<close>, \<^verbatim>\<open>gLag_\<close>, \<^verbatim>\<open>sigma_\<close>, the input and output
  slots of \<^verbatim>\<open>qp_solver_\<close>, the local variables of the function, and what it has
  printed. Every field \<open>st_v\<close> stands for the variable \<open>v\<close> of the source.
\<close>

record sqp_state =
  st_x :: vec
  st_x_old :: vec
  st_x_cand :: vec
  st_mu :: vec
  st_mu_x :: vec
  st_gLag :: vec
  st_sigma :: double
  st_qp_in :: qp_input
  st_qp_out :: qp_output
  st_p :: vec
  st_Bk :: smatrix
  st_fk :: double
  st_gk :: vec
  st_Jgk :: smatrix
  st_merit_mem :: "double list"
  st_it_counter :: int
  st_l1_infeas :: double
  st_L1dir :: double
  st_L1merit :: double
  st_t :: double
  st_ls_counter :: int
  st_fk_cand :: double
  st_gk_cand :: vec
  st_gLag_old_bfgs :: vec
  st_pr_inf :: double
  st_gLag_norm1 :: double
  st_cout :: "event list"

section \<open>The SQP driver: one pass of the main loop\<close>

text \<open>Line 198: the header is printed again when the counter is a multiple of ten.\<close>

definition stage_header :: "sqp_state \<Rightarrow> sqp_state" where
  "stage_header s =
     (if st_it_counter s mod 10 = 0 then s\<lparr>st_cout := st_cout s @ [Header]\<rparr> else s)"

text \<open>Lines 200 to 239: the exact Hessian, regularised on request.\<close>

definition stage_hessian :: "collaborators \<Rightarrow> sqp_options \<Rightarrow> sqp_state \<Rightarrow> sqp_state" where
  "stage_hessian fx opts s =
     (if hessian_approximation opts = Exact
      then (let Bk = H_eval fx (st_x s)
                       (if n_hess_in opts > 1 then Some (st_mu s, 1) else None)
            in s\<lparr>st_Bk := (if regularize opts then regularize_Bk Bk else Bk)\<rparr>)
      else s)"

text \<open>Lines 247 to 269: constraint function and Jacobian, only when \<open>m_ > 0\<close>.\<close>

definition G_output :: "collaborators \<Rightarrow> vec \<Rightarrow> vec" where
  "G_output fx x = (case G_fx fx of None \<Rightarrow> [] | Some g \<Rightarrow> g x)"

definition stage_constraints :: "collaborators \<Rightarrow> sqp_options \<Rightarrow> sqp_state \<Rightarrow> sqp_state" where
  "stage_constraints fx opts s =
     (if m_dim opts > 0
      then s\<lparr>st_gk := G_output fx (st_x s), st_Jgk := J_eval fx (st_x s)\<rparr>
      else s)"

text \<open>Lines 272 to 275: the objective value (its gradient is read where it is used).\<close>

definition stage_objective :: "collaborators \<Rightarrow> sqp_state \<Rightarrow> sqp_state" where
  "stage_objective fx s = s\<lparr>st_fk := F_eval fx (st_x s)\<rparr>"

text \<open>
  \<^verbatim>\<open>transform(a.begin(), a.end(), b.begin(), dest.begin(), minus<double>())\<close>: the
  first \<open>length a\<close> entries of \<open>dest\<close> become \<open>a[i] - b[i]\<close>, the others stay.
\<close>

definition transform_minus :: "vec \<Rightarrow> vec \<Rightarrow> vec \<Rightarrow> vec" where
  "transform_minus a b dest = map (\<lambda>i. a ! i - b ! i) [0..<length a] @ drop (length a) dest"

definition transform_plus :: "vec \<Rightarrow> vec \<Rightarrow> vec" where
  "transform_plus a b = map (\<lambda>i. a ! i + b ! i) [0..<length a]"

text \<open>
  Lines 293 to 309: the input slots of the QP solver. \<open>QP_X_INIT\<close> is set only when a
  step \<open>p\<close> exists, \<open>QP_A\<close>, \<open>QP_LBA\<close> and \<open>QP_UBA\<close> only when \<open>m_ > 0\<close>; a slot that
  is not set keeps what it held.
\<close>

definition qp_assemble ::
  "collaborators \<Rightarrow> sqp_options \<Rightarrow> nlp_input \<Rightarrow> sqp_state \<Rightarrow> qp_input" where
  "qp_assemble fx opts inp s =
     (let q1 = (st_qp_in s)\<lparr>QP_H := st_Bk s, QP_G := F_adjSens fx (st_x s)\<rparr>;
          q2 = (if length (st_p s) \<noteq> 0 then q1\<lparr>QP_X_INIT := st_p s\<rparr> else q1);
          q3 = (if m_dim opts > 0
                then q2\<lparr>QP_A := st_Jgk s,
                        QP_LBA := map2 (-) (NLP_LBG inp) (st_gk s),
                        QP_UBA := map2 (-) (NLP_UBG inp) (st_gk s)\<rparr>
                else q2)
      in q3\<lparr>QP_LBX := transform_minus (NLP_LBX inp) (st_x s) (QP_LBX q3),
             QP_UBX := transform_minus (NLP_UBX inp) (st_x s) (QP_UBX q3)\<rparr>)"

definition stage_qp_inputs ::
  "collaborators \<Rightarrow> sqp_options \<Rightarrow> nlp_input \<Rightarrow> sqp_state \<Rightarrow> sqp_state" where
  "stage_qp_inputs fx opts inp s = s\<lparr>st_qp_in := qp_assemble fx opts inp s\<rparr>"

text \<open>Lines 329 to 349: the QP is solved on the input slots; step, warning, duals.\<close>

definition stage_qp_solve :: "collaborators \<Rightarrow> sqp_state \<Rightarrow> sqp_state" where
  "stage_qp_solve fx s =
     (let out = qp_solver fx (st_qp_in s);
          p = QP_PRIMAL out;
          gain = inner_prod p (mul (st_Bk s) p)
      in s\<lparr>st_qp_out := out, st_p := p,
           st_cout := (if gain < 0 then st_cout s @ [Warning_indefinite_Hessian]
                       else st_cout s)\<rparr>)"

text \<open>Lines 352 to 356: the penalty parameter, from the duals of the constraints.\<close>

definition penalty_update :: "nat \<Rightarrow> vec \<Rightarrow> double \<Rightarrow> double" where
  "penalty_update m mu_qp sigma =
     fold (\<lambda>j sg. if \<bar>mu_qp ! j\<bar> > sg then \<bar>mu_qp ! j\<bar> * dbl 1.01 else sg) [0..<m] sigma"

definition stage_penalty :: "sqp_options \<Rightarrow> sqp_state \<Rightarrow> sqp_state" where
  "stage_penalty opts s =
     s\<lparr>st_sigma := penalty_update (m_dim opts) (QP_LAMBDA_A (st_qp_out s)) (st_sigma s)\<rparr>"

text \<open>Lines 364 to 373 and 410 to 418: the l1 infeasibility of the constraints.\<close>

definition l1_infeasibility :: "nat \<Rightarrow> vec \<Rightarrow> vec \<Rightarrow> vec \<Rightarrow> double" where
  "l1_infeasibility m lbg ubg g =
     fold (\<lambda>j l1_infeas.
             if lbg ! j - g ! j > 0 then l1_infeas + (lbg ! j - g ! j)
             else if g ! j - ubg ! j > 0 then l1_infeas + (g ! j - ubg ! j)
             else l1_infeas)
          [0..<m] 0"

text \<open>Lines 364 to 386: merit value and its directional derivative; the merit memory.\<close>

definition stage_merit ::
  "collaborators \<Rightarrow> sqp_options \<Rightarrow> nlp_input \<Rightarrow> sqp_state \<Rightarrow> sqp_state" where
  "stage_merit fx opts inp s =
     (let l1_infeas = l1_infeasibility (m_dim opts) (NLP_LBG inp) (NLP_UBG inp) (st_gk s);
          L1dir = F_fwdSens fx (st_x s) (st_p s) - st_sigma s * l1_infeas;
          L1merit = st_fk s + st_sigma s * l1_infeas;
          mem = st_merit_mem s @ [L1merit]
      in s\<lparr>st_l1_infeas := l1_infeas, st_L1dir := L1dir, st_L1merit := L1merit,
           st_merit_mem := (if length mem > merit_memsize opts then tl mem else mem)\<rparr>)"

text \<open>
  Lines 396 to 442: the line search. It returns what the loop leaves in \<open>t\<close>,
  \<open>ls_counter\<close>, \<open>x_cand_\<close>, \<open>fk_cand\<close> and \<open>gk_cand\<close>. The loop has no bound of its
  own when \<open>maxiter_ls_\<close> is below the counter, hence the option type: \<open>None\<close> is a
  search that never ends.
\<close>

record ls_result =
  ls_t :: double
  ls_trials :: int
  ls_x_cand :: vec
  ls_fk_cand :: double
  ls_gk_cand :: vec

definition merit_max :: "double list \<Rightarrow> double" where
  "merit_max merit_mem =
     fold (\<lambda>v meritmax. if v > meritmax then v else meritmax) merit_mem (- dbl (10 ^ 20))"

text \<open>
  One trial at stepsize \<open>t\<close> (lines 398 to 420): the candidate, the objective and the
  constraints there, and the merit value. Line 428 is the test \<open>armijo\<close>. The loop
  reads \<open>x_\<close>, \<open>p\<close>, \<open>sigma_\<close>, \<open>merit_mem\<close> and \<open>L1dir\<close> from the state and changes
  none of them.
\<close>

definition trial ::
  "collaborators \<Rightarrow> sqp_options \<Rightarrow> nlp_input \<Rightarrow> sqp_state \<Rightarrow> double
     \<Rightarrow> vec \<times> double \<times> vec \<times> double" where
  "trial fx opts inp s t =
     (let x_cand = map (\<lambda>i. st_x s ! i + t * st_p s ! i) [0..<n_dim opts];
          fk_cand = F_eval fx x_cand;
          gk_cand = G_output fx x_cand;
          l1_infeas = (if G_fx fx \<noteq> None
                       then l1_infeasibility (m_dim opts) (NLP_LBG inp) (NLP_UBG inp) gk_cand
                       else 0);
          L1merit_cand = fk_cand + st_sigma s * l1_infeas
      in (x_cand, fk_cand, gk_cand, L1merit_cand))"

definition armijo ::
  "collaborators \<Rightarrow> sqp_options \<Rightarrow> nlp_input \<Rightarrow> sqp_state \<Rightarrow> double \<Rightarrow> bool" where
  "armijo fx opts inp s t =
     (case trial fx opts inp s t of
        (x_cand, fk_cand, gk_cand, L1merit_cand) \<Rightarrow>
          L1merit_cand \<le> merit_max (st_merit_mem s) + t * c1 opts * st_L1dir s)"

partial_function (option) line_search ::
  "collaborators \<Rightarrow> sqp_options \<Rightarrow> nlp_input \<Rightarrow> sqp_state \<Rightarrow> double \<Rightarrow> int
     \<Rightarrow> ls_result option" where
  "line_search fx opts inp s t ls_counter =
     (case trial fx opts inp s t of
        (x_cand, fk_cand, gk_cand, L1merit_cand) \<Rightarrow>
          if armijo fx opts inp s t
          then Some \<lparr>ls_t = t, ls_trials = ls_counter, ls_x_cand = x_cand,
                      ls_fk_cand = fk_cand, ls_gk_cand = gk_cand\<rparr>
          else if ls_counter = maxiter_ls opts
          then Some \<lparr>ls_t = beta opts * t, ls_trials = ls_counter, ls_x_cand = x_cand,
                      ls_fk_cand = fk_cand, ls_gk_cand = gk_cand\<rparr>
          else line_search fx opts inp s (beta opts * t) (ls_counter + 1))"

definition stage_line_search ::
  "collaborators \<Rightarrow> sqp_options \<Rightarrow> nlp_input \<Rightarrow> sqp_state \<Rightarrow> sqp_state option" where
  "stage_line_search fx opts inp s =
     (case line_search fx opts inp s 1 1 of
        None \<Rightarrow> None
      | Some r \<Rightarrow>
          Some (s\<lparr>st_t := ls_t r, st_ls_counter := ls_trials r, st_x_cand := ls_x_cand r,
                  st_fk_cand := ls_fk_cand r, st_gk_cand := ls_gk_cand r\<rparr>))"

text \<open>Lines 444 to 449: the candidate becomes the iterate; the duals are blended.\<close>

definition stage_commit :: "sqp_options \<Rightarrow> sqp_state \<Rightarrow> sqp_state" where
  "stage_commit opts s =
     s\<lparr>st_x_old := st_x s, st_x := st_x_cand s, st_fk := st_fk_cand s,
       st_gk := st_gk_cand s,
       st_mu := map (\<lambda>i. st_t s * QP_LAMBDA_A (st_qp_out s) ! i + (1 - st_t s) * st_mu s ! i)
                  [0..<m_dim opts],
       st_mu_x := map (\<lambda>i. st_t s * QP_LAMBDA_X (st_qp_out s) ! i + (1 - st_t s) * st_mu_x s ! i)
                  [0..<n_dim opts]\<rparr>"

text \<open>
  Lines 452 to 476: the gradient of the Lagrangian at the new and at the old point.
  At line 460 the input slot of \<open>G_\<close> still holds the candidate of the line search.
\<close>

definition stage_gLag :: "collaborators \<Rightarrow> sqp_options \<Rightarrow> sqp_state \<Rightarrow> sqp_state" where
  "stage_gLag fx opts s =
     (let g1 = F_adjSens fx (st_x s);
          g2 = (if m_dim opts > 0
                then transform_plus g1 (G_adjSens fx (st_x_cand s) (st_mu s)) else g1);
          g3 = transform_plus g2 (st_mu_x s);
          o1 = F_adjSens fx (st_x_old s);
          o2 = (if G_fx fx \<noteq> None
                then map2 (+) o1 (G_adjSens fx (st_x_old s) (st_mu s)) else o1);
          o3 = map2 (+) o2 (st_mu_x s)
      in s\<lparr>st_gLag := g3, st_gLag_old_bfgs := o3\<rparr>)"

text \<open>Lines 479 to 498; the error of line 480 ends the pass.\<close>

definition stage_bfgs :: "sqp_options \<Rightarrow> sqp_state \<Rightarrow> sqp_error + sqp_state" where
  "stage_bfgs opts s =
     (if hessian_approximation opts = Limited_memory
      then (case bfgs_update (st_it_counter s) (lbfgs_memory opts) (st_Bk s)
                   (st_x s) (st_x_old s) (st_gLag s) (st_gLag_old_bfgs s) of
              Inl e \<Rightarrow> Inl e
            | Inr Bk \<Rightarrow> Inr (s\<lparr>st_Bk := Bk\<rparr>))
      else Inr s)"

text \<open>
  Lines 501 to 536: the primal infeasibility. \<open>add_violation lb ub v\<close> is one pass
  of either loop: it adds the distance to \<open>lb\<close> for an equality, the amount by which
  an inequality is violated otherwise, and nothing when the value is within its bounds.
\<close>

definition add_violation :: "double \<Rightarrow> double \<Rightarrow> double \<Rightarrow> double \<Rightarrow> double" where
  "add_violation lb ub v acc =
     (if ub - lb < dbl (1 / 10 ^ 20) then acc + \<bar>v - lb\<bar>
      else if lb - v > 0 then acc + (lb - v)
      else if v - ub > 0 then acc + (v - ub)
      else acc)"

definition sum_violation :: "nat \<Rightarrow> vec \<Rightarrow> vec \<Rightarrow> vec \<Rightarrow> double" where
  "sum_violation k lb ub v =
     fold (\<lambda>j acc. add_violation (lb ! j) (ub ! j) (v ! j) acc) [0..<k] 0"

definition primal_infeasibility ::
  "collaborators \<Rightarrow> sqp_options \<Rightarrow> nlp_input \<Rightarrow> sqp_state \<Rightarrow> double" where
  "primal_infeasibility fx opts inp s =
     (let pr_infG = (if G_fx fx \<noteq> None
                     then sum_violation (m_dim opts) (NLP_LBG inp) (NLP_UBG inp) (st_gk_cand s)
                     else 0);
          pr_infx = (if G_fx fx \<noteq> None
                     then sum_violation (n_dim opts) (NLP_LBX inp) (NLP_UBX inp) (st_x s)
                     else 0)
      in pr_infG + pr_infx)"

text \<open>Lines 501 to 556: the two norms of the convergence test and the log line.\<close>

definition stage_kkt ::
  "collaborators \<Rightarrow> sqp_options \<Rightarrow> nlp_input \<Rightarrow> sqp_state \<Rightarrow> sqp_state" where
  "stage_kkt fx opts inp s =
     (let pr_inf = primal_infeasibility fx opts inp s;
          gLag_norm1 = fold (\<lambda>v acc. acc + \<bar>v\<bar>) (st_gLag s) 0;
          ls_success = (if st_ls_counter s = maxiter_ls opts then CHR ''F'' else CHR '' '')
      in s\<lparr>st_pr_inf := pr_inf, st_gLag_norm1 := gLag_norm1,
           st_cout := st_cout s @
             [Iterate \<lparr>log_it = st_it_counter s, log_obj = st_fk_cand s, log_pr_inf = pr_inf,
                       log_du_inf = gLag_norm1, log_corr_norm = norm_1 (st_p s),
                       log_stepsize = st_t s, log_ls_trials = st_ls_counter s,
                       log_ls_success = ls_success\<rparr>]\<rparr>)"

text \<open>
  Lines 558 to 584: the three ways out of the loop, in the order of the source, and the
  increment of the counter when none is taken.
\<close>

definition callback_answer :: "collaborators \<Rightarrow> sqp_state \<Rightarrow> double option" where
  "callback_answer fx s =
     (case callback fx of
        None \<Rightarrow> None
      | Some cb \<Rightarrow>
          Some (cb (st_it_counter s)
                  \<lparr>CB_COST = st_fk s, CB_X_OPT = st_x s, CB_LAMBDA_G = st_mu s,
                   CB_LAMBDA_X = st_mu_x s, CB_G = st_gk s\<rparr>))"

definition callback_aborts :: "collaborators \<Rightarrow> sqp_state \<Rightarrow> bool" where
  "callback_aborts fx s =
     (case callback_answer fx s of None \<Rightarrow> False | Some v \<Rightarrow> v \<noteq> 0)"

definition stage_exit ::
  "collaborators \<Rightarrow> sqp_options \<Rightarrow> sqp_state \<Rightarrow> sqp_state \<times> exit_reason option" where
  "stage_exit fx opts s =
     (if callback_aborts fx s
      then (s\<lparr>st_cout := st_cout s @ [Aborted_by_callback]\<rparr>, Some Callback_abort)
      else if st_pr_inf s < tol_pr opts \<and> st_gLag_norm1 s < tol_du opts
      then (s\<lparr>st_cout := st_cout s @ [Convergence_achieved (st_it_counter s)]\<rparr>,
            Some Converged)
      else if st_it_counter s = maxiter opts
      then (s\<lparr>st_cout := st_cout s @ [Maximum_iterations_reached]\<rparr>, Some Iteration_cap)
      else (s\<lparr>st_it_counter := st_it_counter s + 1\<rparr>, None))"

text \<open>
  The body of \<^verbatim>\<open>while(true)\<close>, lines 196 to 585. A pass has three outcomes: the line
  search never ends (\<open>None\<close>), line 480 traps (\<open>Some (Inl Modulo_by_zero)\<close>), or the
  pass reaches the exits of lines 558 to 584 (\<open>Some (Inr (s', ex))\<close>, with \<open>ex\<close> the
  exit taken, if any).
\<close>

definition before_line_search ::
  "collaborators \<Rightarrow> sqp_options \<Rightarrow> nlp_input \<Rightarrow> sqp_state \<Rightarrow> sqp_state" where
  "before_line_search fx opts inp s =
     stage_merit fx opts inp
       (stage_penalty opts
         (stage_qp_solve fx
           (stage_qp_inputs fx opts inp
             (stage_objective fx
               (stage_constraints fx opts
                 (stage_hessian fx opts
                   (stage_header s)))))))"

definition after_line_search ::
  "collaborators \<Rightarrow> sqp_options \<Rightarrow> nlp_input \<Rightarrow> sqp_state \<Rightarrow> sqp_error + sqp_state" where
  "after_line_search fx opts inp s =
     (case stage_bfgs opts (stage_gLag fx opts (stage_commit opts s)) of
        Inl e \<Rightarrow> Inl e
      | Inr u \<Rightarrow> Inr (stage_kkt fx opts inp u))"

definition sqp_iteration ::
  "collaborators \<Rightarrow> sqp_options \<Rightarrow> nlp_input \<Rightarrow> sqp_state
     \<Rightarrow> (sqp_error + sqp_state \<times> exit_reason option) option" where
  "sqp_iteration fx opts inp s =
     (case stage_line_search fx opts inp (before_line_search fx opts inp s) of
        None \<Rightarrow> None
      | Some s1 \<Rightarrow>
          (case after_line_search fx opts inp s1 of
             Inl e \<Rightarrow> Some (Inl e)
           | Inr u \<Rightarrow> Some (Inr (stage_exit fx opts u))))"


section \<open>The SQP driver: \<^verbatim>\<open>evaluate\<close>\<close>

text \<open>
  Lines 141 to 193: the state in which the main loop starts. \<open>qp0\<close> and \<open>out0\<close> are
  the slots of the QP solver as they are found; the source fills \<open>QP_LBX\<close> and
  \<open>QP_UBX\<close> with infinities, which lines 308 and 309 overwrite before the first solve.
  The vectors \<open>x_old_\<close> and \<open>x_cand_\<close> and the local variables that a pass writes
  before it reads them start at zero, at \<open>1\<close> or empty. The assertion on the number of
  derivative directions and \<open>checkInitialBounds\<close>, which is not part of this file, are
  left out.
\<close>

definition initial_state :: "sqp_options \<Rightarrow> nlp_input \<Rightarrow> qp_input \<Rightarrow> qp_output \<Rightarrow> sqp_state" where
  "initial_state opts inp qp0 out0 =
     \<lparr>st_x = NLP_X_INIT inp @ drop (length (NLP_X_INIT inp)) (replicate (n_dim opts) 0),
      st_x_old = replicate (n_dim opts) 0,
      st_x_cand = replicate (n_dim opts) 0,
      st_mu = replicate (m_dim opts) 0,
      st_mu_x = replicate (n_dim opts) 0,
      st_gLag = replicate (n_dim opts) 0,
      st_sigma = 0,
      st_qp_in = qp0\<lparr>QP_LBX := map (\<lambda>v. NInf) (QP_LBX qp0),
                       QP_UBX := map (\<lambda>v. PInf) (QP_UBX qp0)\<rparr>,
      st_qp_out = out0,
      st_p = [],
      st_Bk = (if hessian_approximation opts = Limited_memory then eye_dense (n_dim opts)
               else []),
      st_fk = 0,
      st_gk = [],
      st_Jgk = [],
      st_merit_mem = [],
      st_it_counter = 1,
      st_l1_infeas = 0,
      st_L1dir = 0,
      st_L1merit = 0,
      st_t = 1,
      st_ls_counter = 1,
      st_fk_cand = 0,
      st_gk_cand = [],
      st_gLag_old_bfgs = [],
      st_pr_inf = 0,
      st_gLag_norm1 = 0,
      st_cout = [Header]\<rparr>"




text \<open>
  The states in which a pass of the main loop starts during a run from \<open>s0\<close>: \<open>s0\<close>
  itself, and the state left by a pass that took none of the exits.
\<close>

inductive reachable ::
  "collaborators \<Rightarrow> sqp_options \<Rightarrow> nlp_input \<Rightarrow> sqp_state \<Rightarrow> sqp_state \<Rightarrow> bool"
  for fx opts inp s0 where
    start: "reachable fx opts inp s0 s0"
  | pass: "reachable fx opts inp s0 s \<Longrightarrow> sqp_iteration fx opts inp s = Some (Inr (s', None))
           \<Longrightarrow> reachable fx opts inp s0 s'"

section \<open>Evaluation nodes: numerical evaluation\<close>
















section \<open>Evaluation nodes: symbolic evaluation\<close>

text \<open>
  \<^verbatim>\<open>Evaluation::evaluateMX\<close> (lines 149 to 186) works on symbolic matrices. \<open>MX\<close> has
  the expressions the function builds: the null expression \<^verbatim>\<open>MX()\<close>, a symbol, a
  matrix of zeros, an output of the call \<^verbatim>\<open>fcn_.call(arg)\<close>, a reference to a Jacobian
  block of an expression, products and sums. A pointer to an \<open>MX\<close> is \<open>None\<close> when
  null and holds the expression it points to otherwise.
\<close>

datatype MX =
    MX_null
  | MX_symbol string
  | MX_zeros nat nat
  | MX_call_output nat "MX list"
  | MX_jacobian_reference MX nat
  | MX_prod MX MX
  | MX_plus MX MX

text \<open>
  What the function can change: its member \<^verbatim>\<open>fwdSeed_\<close> and the expressions behind
  the pointers in \<open>output\<close>, \<open>fwdSens\<close> and \<open>adjSens\<close>.
\<close>

record mx_frame =
  fwdSeed_member :: "MX list list"
  output_arg :: "MX option list"
  fwdSens_arg :: "MX option list list"
  adjSens_arg :: "MX option list list"

text \<open>\<^verbatim>\<open>std::vector::resize\<close>: cut to length \<open>k\<close>, or filled up with default values.\<close>

definition resize :: "nat \<Rightarrow> 'a \<Rightarrow> 'a list \<Rightarrow> 'a list" where
  "resize k dflt xs = take k xs @ replicate (k - length xs) dflt"

text \<open>Lines 153 to 161: the forward seeds that are not null are copied into the member.\<close>

definition copy_seed_row :: "MX option list \<Rightarrow> MX option list \<Rightarrow> MX list \<Rightarrow> MX list" where
  "copy_seed_row input seeds row =
     fold (\<lambda>iind r. case seeds ! iind of None \<Rightarrow> r | Some v \<Rightarrow> r[iind := v])
       [0..<length input] (resize (length input) MX_null row)"

definition copy_seeds ::
  "MX option list \<Rightarrow> MX option list list \<Rightarrow> nat \<Rightarrow> MX list list \<Rightarrow> MX list list" where
  "copy_seeds input fwdSeed nfwd member =
     fold (\<lambda>d M. M[d := copy_seed_row input (fwdSeed ! d) (M ! d)])
       [0..<nfwd] (resize nfwd [] member)"

text \<open>
  Lines 165 to 185, the text after \<^verbatim>\<open>return;\<close>: the function is called on the
  arguments, and every forward sensitivity that is not null is set to zeros (of the
  size 1 by 1 that the constructor gives the node) plus the products of the Jacobian
  blocks with the seeds.
\<close>

definition propagated :: "MX option list \<Rightarrow> MX option list \<Rightarrow> nat \<Rightarrow> MX" where
  "propagated input seeds oind =
     (let arg = map (\<lambda>p. case p of None \<Rightarrow> MX_null | Some v \<Rightarrow> v) input;
          res = MX_call_output oind arg
      in fold (\<lambda>iind acc. case seeds ! iind of
                 None \<Rightarrow> acc
               | Some seed \<Rightarrow> MX_plus acc (MX_prod (MX_jacobian_reference res iind) seed))
           [0..<length input] (MX_zeros 1 1))"

definition symbolic_propagation ::
  "MX option list \<Rightarrow> MX option list list \<Rightarrow> mx_frame \<Rightarrow> mx_frame" where
  "symbolic_propagation input fwdSeed fr =
     fr\<lparr>fwdSens_arg :=
          fold (\<lambda>d S. S[d :=
                  fold (\<lambda>oind row. case row ! oind of
                          None \<Rightarrow> row
                        | Some old \<Rightarrow> row[oind := Some (propagated input (fwdSeed ! d) oind)])
                    [0..<length (output_arg fr)] (S ! d)])
            [0..<length (fwdSens_arg fr)] (fwdSens_arg fr)\<rparr>"

text \<open>
  A statement either lets control run on or returns from the function; statements
  after a \<^verbatim>\<open>return\<close> are not run.
\<close>

datatype 'a flow = Running 'a | Returned 'a

definition and_then :: "'a flow \<Rightarrow> ('a \<Rightarrow> 'a flow) \<Rightarrow> 'a flow" where
  "and_then f g = (case f of Running a \<Rightarrow> g a | Returned a \<Rightarrow> Returned a)"

definition at_exit :: "'a flow \<Rightarrow> 'a" where
  "at_exit f = (case f of Running a \<Rightarrow> a | Returned a \<Rightarrow> a)"

text \<open>The function: the copy of the seeds, \<^verbatim>\<open>return;\<close> at line 162, and the rest.\<close>

definition Evaluation_evaluateMX ::
  "MX option list \<Rightarrow> MX option list list \<Rightarrow> MX option list list \<Rightarrow> bool \<Rightarrow> mx_frame \<Rightarrow> mx_frame" where
  "Evaluation_evaluateMX input fwdSeed adjSeed output_given fr =
     at_exit
       (and_then
         (and_then
           (Running (fr\<lparr>fwdSeed_member :=
                         copy_seeds input fwdSeed (length (fwdSens_arg fr)) (fwdSeed_member fr)\<rparr>))
           Returned)
         (\<lambda>fr'. Running (symbolic_propagation input fwdSeed fr')))"

section \<open>Slots that share a matrix\<close>





section \<open>Quantities of the specification\<close>

text \<open>
  The Gershgorin radius of row \<open>i\<close> as the specification writes it, the sum of the
  absolute values of the entries of the row off the diagonal, and the lower bound
  \<open>B(i,i) - r(i)\<close> on the eigenvalues, both in the arithmetic of doubles, the sum
  taken from \<open>0\<close> in the order in which the row is stored.
\<close>

definition offdiag_sum :: "smatrix \<Rightarrow> nat \<Rightarrow> double" where
  "offdiag_sum B i =
     sum_from_zero (map (\<lambda>(j, v). \<bar>v\<bar>) (filter (\<lambda>(j, v). i \<noteq> j) (B ! i)))"

definition gershgorin_lower :: "smatrix \<Rightarrow> nat \<Rightarrow> double" where
  "gershgorin_lower B i = elem B i i - offdiag_sum B i"

text \<open>
  \<open>least_of f n tau\<close>: \<open>tau\<close> is the least of the values \<open>f 0\<close>, ..., \<open>f (n - 1)\<close>.
\<close>

definition least_of :: "(nat \<Rightarrow> double) \<Rightarrow> nat \<Rightarrow> double \<Rightarrow> bool" where
  "least_of f n tau = ((\<exists>i<n. tau = f i) \<and> (\<forall>i<n. tau \<le> f i))"

section \<open>Example problems\<close>

text \<open>
  Problems in one variable on which the driver is run below. The QP solver
  \<open>box_qp_1d\<close> solves the box-constrained QP in one variable: the minimiser
  of \<open>h p\<^sup>2 / 2 + g p\<close> clipped to the bounds. \<open>power_fx c k\<close> is the objective
  \<open>c x\<^sup>k\<close> without constraints (\<open>G_\<close> is null); \<open>default_options\<close> are the defaults of
  the constructor.
\<close>

definition box_qp_1d :: "qp_input \<Rightarrow> qp_output" where
  "box_qp_1d q =
     (let h = elem (QP_H q) 0 0; g = QP_G q ! 0;
          p = max (QP_LBX q ! 0) (min (QP_UBX q ! 0) (- g / h))
      in \<lparr>QP_PRIMAL = [p], QP_LAMBDA_A = [], QP_LAMBDA_X = [- (h * p + g)]\<rparr>)"

primrec pow :: "double \<Rightarrow> nat \<Rightarrow> double" where
  "pow x 0 = 1"
| "pow x (Suc n) = x * pow x n"

definition power_fx :: "real \<Rightarrow> nat \<Rightarrow> collaborators" where
  "power_fx c k =
     \<lparr>F_eval = (\<lambda>x. dbl c * pow (x ! 0) k),
      F_adjSens = (\<lambda>x. [dbl c * dbl (real k) * pow (x ! 0) (k - 1)]),
      F_fwdSens = (\<lambda>x p. dbl c * dbl (real k) * pow (x ! 0) (k - 1) * p ! 0),
      G_fx = None, G_adjSens = (\<lambda>x mu. []), J_eval = (\<lambda>x. []),
      H_eval = (\<lambda>x m. [[(0, dbl c * dbl (real k) * dbl (real (k - 1)) * pow (x ! 0) (k - 2))]]),
      qp_solver = box_qp_1d, callback = None\<rparr>"

definition default_options :: "nat \<Rightarrow> nat \<Rightarrow> sqp_options" where
  "default_options n m =
     \<lparr>hessian_approximation = Limited_memory, regularize = False, maxiter = 50,
      maxiter_ls = 3, c1 = dbl (1 / 10 ^ 4), beta = dbl 0.8, merit_memsize = 4,
      lbfgs_memory = 10, tol_pr = dbl (1 / 10 ^ 6), tol_du = dbl (1 / 10 ^ 6),
      n_hess_in = 0, n_dim = n, m_dim = m\<rparr>"

definition box_input :: "real \<Rightarrow> real \<Rightarrow> real \<Rightarrow> nlp_input" where
  "box_input x0 lb ub =
     \<lparr>NLP_X_INIT = [dbl x0], NLP_LBX = [dbl lb], NLP_UBX = [dbl ub], NLP_LBG = [],
      NLP_UBG = []\<rparr>"

definition qp_slots :: "nat \<Rightarrow> qp_input" where
  "qp_slots n =
     \<lparr>QP_H = [], QP_G = [], QP_A = [], QP_LBA = [], QP_UBA = [],
      QP_LBX = replicate n 0, QP_UBX = replicate n 0, QP_X_INIT = replicate n 0\<rparr>"

definition qp_results :: qp_output where
  "qp_results = \<lparr>QP_PRIMAL = [], QP_LAMBDA_A = [], QP_LAMBDA_X = []\<rparr>"

text \<open>
  Two Hessians for the exact mode with regularisation: \<open>[[1, -2], [-2, 1]]\<close>, whose
  entries and sums are small integers, and \<open>[[0.2, 0.9], [0.9, 0.2]]\<close>, with the
  doubles that these decimal literals denote. \<open>hessian_fx H\<close> is a problem in two
  variables whose Hessian evaluator returns \<open>H\<close>.
\<close>

definition coupled_H :: smatrix where
  "coupled_H = [[(0, dbl 1), (1, dbl (- 2))], [(0, dbl (- 2)), (1, dbl 1)]]"

definition tenths_H :: smatrix where
  "tenths_H = [[(0, dbl 0.2), (1, dbl 0.9)], [(0, dbl 0.9), (1, dbl 0.2)]]"

definition hessian_fx :: "smatrix \<Rightarrow> collaborators" where
  "hessian_fx H =
     \<lparr>F_eval = (\<lambda>x. 0), F_adjSens = (\<lambda>x. [0, 0]), F_fwdSens = (\<lambda>x p. 0),
      G_fx = None, G_adjSens = (\<lambda>x mu. []), J_eval = (\<lambda>x. []),
      H_eval = (\<lambda>x m. H),
      qp_solver = (\<lambda>q. \<lparr>QP_PRIMAL = [0, 0], QP_LAMBDA_A = [], QP_LAMBDA_X = [0, 0]\<rparr>),
      callback = None\<rparr>"

definition exact_options :: "nat \<Rightarrow> nat \<Rightarrow> sqp_options" where
  "exact_options n m = (default_options n m)\<lparr>hessian_approximation := Exact, regularize := True\<rparr>"

definition origin_input :: nlp_input where
  "origin_input =
     \<lparr>NLP_X_INIT = [0, 0], NLP_LBX = [dbl (- 1), dbl (- 1)], NLP_UBX = [dbl 1, dbl 1],
      NLP_LBG = [], NLP_UBG = []\<rparr>"

text \<open>
  A problem with one equality constraint: minimise \<open>x\<^sup>2\<close> subject to \<open>2 x = 2\<close>. Its
  QP has one variable and one equality, so the step is fixed by the constraint.
\<close>

definition eq_qp_1d :: "qp_input \<Rightarrow> qp_output" where
  "eq_qp_1d q =
     (let h = elem (QP_H q) 0 0; g = QP_G q ! 0; a = elem (QP_A q) 0 0;
          p = QP_LBA q ! 0 / a
      in \<lparr>QP_PRIMAL = [p], QP_LAMBDA_A = [- (h * p + g) / a], QP_LAMBDA_X = [0]\<rparr>)"

definition line_fx :: collaborators where
  "line_fx =
     \<lparr>F_eval = (\<lambda>x. x ! 0 * x ! 0), F_adjSens = (\<lambda>x. [dbl 2 * x ! 0]),
      F_fwdSens = (\<lambda>x p. dbl 2 * x ! 0 * p ! 0),
      G_fx = Some (\<lambda>x. [dbl 2 * x ! 0]), G_adjSens = (\<lambda>x mu. [dbl 2 * mu ! 0]),
      J_eval = (\<lambda>x. [[(0, dbl 2)]]), H_eval = (\<lambda>x m. [[(0, dbl 2)]]),
      qp_solver = eq_qp_1d, callback = None\<rparr>"

definition line_input :: nlp_input where
  "line_input =
     \<lparr>NLP_X_INIT = [dbl 2], NLP_LBX = [NInf], NLP_UBX = [dbl 10], NLP_LBG = [dbl 2],
      NLP_UBG = [dbl 2]\<rparr>"

definition line_options :: sqp_options where
  "line_options = (default_options 1 1)\<lparr>hessian_approximation := Exact, n_hess_in := 3\<rparr>"






section \<open>Rounding\<close>

text \<open>
  The exponent and the rounding of a number given by its binary form, so that \<open>fl\<close>
  can be computed on rationals; the relative error of \<open>fl\<close> is at most \<open>2\<^sup>-\<^sup>5\<^sup>3\<close>; \<open>fl\<close>
  keeps signs and order, and leaves the numbers it returns as they are.
\<close>

lemma expo_eqI:
  assumes "2 powi e \<le> \<bar>x\<bar>" and "\<bar>x\<bar> < 2 powi (e + 1)"
  shows "expo x = e"
proof -
  have "0 < (2 :: real) powi e" by simp
  with assms(1) have pos: "0 < \<bar>x\<bar>" by linarith
  have l: "log 2 (2 powi k) = of_int k" for k :: int
    by (simp add: powr_real_of_int' flip: powr_real_of_int')
  have "log 2 (2 powi e) \<le> log 2 \<bar>x\<bar>" using assms(1) pos by (simp add: log_le_cancel_iff)
  moreover have "log 2 \<bar>x\<bar> < log 2 (2 powi (e + 1))"
    using assms(2) pos by (simp add: log_less_cancel_iff)
  ultimately show ?thesis unfolding expo_def by (simp add: floor_eq_iff l)
qed

lemma expo_bounds:
  assumes "x \<noteq> 0"
  shows "2 powi (expo x) \<le> \<bar>x\<bar>" and "\<bar>x\<bar> < 2 powi (expo x + 1)"
proof -
  have pos: "0 < \<bar>x\<bar>" using assms by simp
  have p: "2 powr (of_int k) = (2::real) powi k" for k :: int
    by (simp add: powr_real_of_int')
  have "of_int (expo x) \<le> log 2 \<bar>x\<bar>" by (simp add: expo_def)
  then have "2 powr (of_int (expo x)) \<le> \<bar>x\<bar>" using pos by (simp add: powr_le_iff)
  then show "2 powi (expo x) \<le> \<bar>x\<bar>" by (simp only: p)
  have "log 2 \<bar>x\<bar> < of_int (expo x + 1)" by (simp add: expo_def)
  then have "\<bar>x\<bar> < 2 powr (of_int (expo x + 1))"
    using pos by (simp add: log_less_iff del: of_int_add)
  then show "\<bar>x\<bar> < 2 powi (expo x + 1)" by (simp only: p)
qed

lemma expo_step:
  assumes "x \<noteq> 0"
  shows "expo x = (if 2 \<le> \<bar>x\<bar> then expo (x / 2) + 1
                   else if \<bar>x\<bar> < 1 then expo (2 * x) - 1 else 0)"
proof -
  have half: "expo x = expo (x / 2) + 1"
  proof (rule expo_eqI)
    from expo_bounds [of "x / 2"] assms
    have a: "2 powi (expo (x / 2)) \<le> \<bar>x\<bar> / 2" "\<bar>x\<bar> / 2 < 2 powi (expo (x / 2) + 1)" by simp_all
    show "2 powi (expo (x / 2) + 1) \<le> \<bar>x\<bar>" using a(1) by (simp add: power_int_add)
    show "\<bar>x\<bar> < 2 powi (expo (x / 2) + 1 + 1)" using a(2) by (simp add: power_int_add)
  qed
  have dbl: "expo x = expo (2 * x) - 1"
  proof (rule expo_eqI)
    from expo_bounds [of "2 * x"] assms
    have a: "2 powi (expo (2 * x)) \<le> 2 * \<bar>x\<bar>" "2 * \<bar>x\<bar> < 2 powi (expo (2 * x) + 1)"
      by (simp_all add: abs_mult)
    show "2 powi (expo (2 * x) - 1) \<le> \<bar>x\<bar>" using a(1) by (simp add: power_int_diff)
    show "\<bar>x\<bar> < 2 powi (expo (2 * x) - 1 + 1)" using a(2) by (simp add: power_int_add)
  qed
  have mid: "expo x = 0" if "\<not> 2 \<le> \<bar>x\<bar>" "\<not> \<bar>x\<bar> < 1"
    by (rule expo_eqI) (use that in simp_all)
  show ?thesis using half dbl mid by simp
qed

lemma fl_eval:
  "x \<noteq> 0 \<Longrightarrow> fl x = of_int (rne (x / 2 powi (expo x - 52))) * 2 powi (expo x - 52)"
  by (simp add: fl_def)

lemma fl_0: "fl 0 = 0"
  by (simp add: fl_def)

lemma rne_error: "\<bar>of_int (rne r) - r\<bar> \<le> 1 / 2"
  unfolding rne_def Let_def by (auto simp: abs_if) linarith+

lemma rne_of_int: "rne (of_int k) = k"
  by (simp add: rne_def)

lemma rne_mono_int: "of_int k \<le> r \<Longrightarrow> k \<le> rne r"
  unfolding rne_def Let_def by (auto simp: le_floor_iff) linarith+

lemma rne_le_int:
  assumes "r \<le> of_int k"
  shows "rne r \<le> k"
proof -
  have f: "\<lfloor>r\<rfloor> \<le> k" using assms by (simp add: floor_le_iff)
  have "\<lfloor>r\<rfloor> + 1 \<le> k" if "r \<noteq> of_int \<lfloor>r\<rfloor>"
  proof -
    have "of_int \<lfloor>r\<rfloor> \<le> r" by simp
    with that have "of_int \<lfloor>r\<rfloor> < r" by linarith
    with assms have "of_int \<lfloor>r\<rfloor> < (of_int k :: real)" by simp
    then show ?thesis by simp
  qed
  with f show ?thesis unfolding rne_def Let_def by auto
qed

lemma fl_error:
  "\<bar>fl x - x\<bar> \<le> \<bar>x\<bar> / 2 ^ 53"
proof (cases "x = 0")
  case True
  then show ?thesis by (simp add: fl_0)
next
  case False
  define q where "q = (2 :: real) powi (expo x - 52)"
  have qpos: "0 < q" by (simp add: q_def)
  have "fl x - x = (of_int (rne (x / q)) - x / q) * q"
    using False qpos by (simp add: fl_eval q_def algebra_simps)
  then have "\<bar>fl x - x\<bar> = \<bar>of_int (rne (x / q)) - x / q\<bar> * q"
    using qpos by (simp add: abs_mult)
  also have "\<dots> \<le> 1 / 2 * q"
    using rne_error [of "x / q"] qpos by (intro mult_right_mono) simp_all
  also have "1 / 2 * q = 2 powi (expo x) / 2 ^ 53"
    by (simp add: q_def power_int_diff)
  also have "\<dots> \<le> \<bar>x\<bar> / 2 ^ 53"
    using expo_bounds(1) [OF False] by (simp add: divide_right_mono)
  finally show ?thesis .
qed

lemma fl_pos: "0 < x \<Longrightarrow> 0 < fl x"
  using fl_error [of x] by (simp add: abs_if field_simps split: if_splits) linarith?

lemma fl_neg: "x < 0 \<Longrightarrow> fl x < 0"
  using fl_error [of x] by (simp add: abs_if field_simps split: if_splits) linarith?

lemma fl_nonneg: "0 \<le> x \<Longrightarrow> 0 \<le> fl x"
  using fl_pos [of x] by (cases "x = 0") (simp_all add: fl_0 less_eq_real_def)

lemma fl_lower: "0 \<le> x \<Longrightarrow> x * (1 - 1 / 2 ^ 53) \<le> fl x"
  using fl_error [of x] by (simp add: abs_if field_simps split: if_splits)



lemma power_int_less_imp_less:
  fixes a b :: int
  assumes "(2 :: real) powi a < 2 powi b"
  shows "a < b"
proof (rule ccontr)
  assume "\<not> a < b"
  then have "b \<le> a" by simp
  then have "(2 :: real) powi b \<le> 2 powi a" by (intro power_int_increasing) simp_all
  with assms show False by simp
qed

lemma fl_rep:
  assumes "\<bar>m\<bar> < 2 ^ 53"
  shows "fl (of_int m * 2 powi k) = of_int m * 2 powi k"
proof (cases "m = 0")
  case True
  then show ?thesis by (simp add: fl_0)
next
  case False
  define x :: real where "x = of_int m * 2 powi k"
  have x0: "x \<noteq> 0" using False by (simp add: x_def)
  define e where "e = expo x"
  have "\<bar>x\<bar> = of_int \<bar>m\<bar> * 2 powi k" by (simp add: x_def abs_mult)
  also have "\<dots> < 2 ^ 53 * 2 powi k"
  proof (rule mult_strict_right_mono)
    have "(of_int \<bar>m\<bar> :: real) < of_int (2 ^ 53)" using assms by (simp only: of_int_less_iff)
    then show "(of_int \<bar>m\<bar> :: real) < 2 ^ 53" by simp
  qed simp
  also have "\<dots> = 2 powi (k + 53)" by (simp add: power_int_add)
  finally have "\<bar>x\<bar> < 2 powi (k + 53)" .
  with expo_bounds(1) [OF x0] have "(2 :: real) powi e < 2 powi (k + 53)"
    by (simp add: e_def)
  then have "e < k + 53" by (rule power_int_less_imp_less)
  then have n0: "0 \<le> k - (e - 52)" by simp
  define n where "n = nat (k - (e - 52))"
  have kn: "k = (e - 52) + int n" using n0 by (simp add: n_def)
  have "x / 2 powi (e - 52) = of_int m * 2 ^ n"
    by (simp add: x_def kn power_int_add)
  also have "\<dots> = of_int (m * 2 ^ n)" by simp
  finally have "rne (x / 2 powi (e - 52)) = m * 2 ^ n" by (simp only: rne_of_int)
  then have "fl x = of_int (m * 2 ^ n) * 2 powi (e - 52)"
    using x0 by (simp add: fl_eval e_def)
  also have "\<dots> = x" by (simp add: x_def kn power_int_add)
  finally show ?thesis by (simp add: x_def)
qed

lemma fl_form: "\<exists>m k. fl x = of_int m * 2 powi k \<and> \<bar>m\<bar> < 2 ^ 53"
proof (cases "x = 0")
  case True
  have "fl x = of_int 0 * 2 powi 0 \<and> \<bar>0 :: int\<bar> < 2 ^ 53" using True by (simp add: fl_0)
  then show ?thesis by blast
next
  case False
  define e where "e = expo x"
  define r where "r = x / 2 powi (e - 52)"
  define M where "M = rne r"
  have fl: "fl x = of_int M * 2 powi (e - 52)"
    using False by (simp add: fl_eval e_def r_def M_def)
  have "\<bar>r\<bar> = \<bar>x\<bar> / 2 powi (e - 52)" by (simp add: r_def abs_divide)
  also have "\<dots> < 2 powi (e + 1) / 2 powi (e - 52)"
    using expo_bounds(2) [OF False] by (simp add: e_def divide_strict_right_mono)
  also have "\<dots> = 2 ^ 53" by (simp add: power_int_diff power_int_add)
  finally have rb: "\<bar>r\<bar> < 2 ^ 53" .
  have up: "M \<le> 2 ^ 53" unfolding M_def using rb by (intro rne_le_int) simp
  have lo: "- (2 ^ 53) \<le> M" unfolding M_def using rb by (intro rne_mono_int) simp
  consider "\<bar>M\<bar> < 2 ^ 53" | "M = 2 ^ 53" | "M = - (2 ^ 53)" using up lo by linarith
  then show ?thesis
  proof cases
    case 1
    with fl show ?thesis by blast
  next
    case 2
    have "fl x = of_int 1 * 2 powi (e + 1)"
      by (simp add: fl 2 power_int_add power_int_diff)
    moreover have "\<bar>1 :: int\<bar> < 2 ^ 53" by simp
    ultimately show ?thesis by blast
  next
    case 3
    have "fl x = of_int (- 1) * 2 powi (e + 1)"
      by (simp add: fl 3 power_int_add power_int_diff)
    moreover have "\<bar>- 1 :: int\<bar> < 2 ^ 53" by simp
    ultimately show ?thesis by blast
  qed
qed

lemma fl_idem: "fl (fl x) = fl x"
proof -
  from fl_form [of x] obtain m k where "fl x = of_int m * 2 powi k" "\<bar>m\<bar> < 2 ^ 53" by blast
  then show ?thesis by (simp add: fl_rep)
qed

lemma fl_fixed_minus: "fl x = x \<Longrightarrow> fl (- x) = - x"
proof -
  assume a: "fl x = x"
  from fl_form [of x] obtain m k where mk: "fl x = of_int m * 2 powi k" "\<bar>m\<bar> < 2 ^ 53" by blast
  then have "- x = of_int (- m) * 2 powi k" "\<bar>- m\<bar> < 2 ^ 53" using a by simp_all
  then show ?thesis using fl_rep [of "- m" k] by simp
qed

lemma fl_of_int: "\<bar>m\<bar> < 2 ^ 53 \<Longrightarrow> fl (of_int m) = of_int m"
  using fl_rep [of m 0] by simp

section \<open>Computing with doubles\<close>

text \<open>
  With \<open>fl_evals\<close> the simplifier rounds a rational: it finds the exponent by halving
  and doubling (\<open>expo_step\<close>) and rounds the significand as an integer.
\<close>

lemmas fl_evals = fl_eval fl_0 expo_step rne_def Let_def

lemmas double_evals = dbl_def zero_double_def one_double_def fl_evals



section \<open>The damping factor\<close>






lemma upt_0_1: "[0..<1] = [0]"
  by (simp add: upt_rec)

lemmas kernel_defs =
  powell_omega_def damp_yk_def inner_prod_def sum_from_zero_def mul_def eye_dense_def elem_def



text \<open>
  The factor can exceed \<open>1\<close>: for \<open>s'Bs = 1.9516...\<close> and \<open>s'y\<close> just below
  \<open>0.2 s'Bs\<close> the three roundings of line 490 add up to \<open>omega = 1 + 2\<^sup>-\<^sup>5\<^sup>2\<close>.
\<close>

lemma powell_omega_above_one:
  "inner_prod [1] (mul [[(0, Fin (8789393156822579 / 2 ^ 52))]] [1])
     = Fin (8789393156822579 / 2 ^ 52)
   \<and> powell_omega [1] [Fin (7031514525458063 / 2 ^ 54)]
        (mul [[(0, Fin (8789393156822579 / 2 ^ 52))]] [1])
     = Fin (1 + 1 / 2 ^ 52)
   \<and> \<not> (powell_omega [1] [Fin (7031514525458063 / 2 ^ 54)]
        (mul [[(0, Fin (8789393156822579 / 2 ^ 52))]] [1]) \<le> 1)"
  by (simp add: kernel_defs double_evals upt_0_1)

text \<open>
  Why \<open>s'y\<close> has to be finite: for \<open>s'y = -\<infinity>\<close> the denominator of line 490 is
  infinite and \<open>omega = 0\<close>.
\<close>

lemma powell_omega_infinite:
  "inner_prod [1] (mul (eye_dense 1) [1]) = Fin 1
   \<and> inner_prod [NInf] [1] = NInf
   \<and> powell_omega [1] [NInf] (mul (eye_dense 1) [1]) = Fin 0"
  by (simp add: kernel_defs double_evals upt_0_1)

section \<open>Finite doubles\<close>

lemma finite_doubleE:
  assumes "finite_double v"
  obtains x where "v = Fin x" and "fl x = x"
  using assms by (cases v) (simp_all add: finite_double_def)

lemma finite_doubleI: "fl x = x \<Longrightarrow> finite_double (Fin x)"
  by (simp add: finite_double_def)

lemma finite_double_fl: "finite_double (Fin (fl x))"
  by (simp add: finite_double_def fl_idem)

lemma finite_double_0: "finite_double 0"
  by (simp add: finite_double_def zero_double_def fl_0)

lemma finite_double_plus: "finite_double a \<Longrightarrow> finite_double b \<Longrightarrow> finite_double (a + b)"
  by (elim finite_doubleE) (simp add: finite_double_fl)

lemma finite_double_minus: "finite_double a \<Longrightarrow> finite_double b \<Longrightarrow> finite_double (a - b)"
  by (elim finite_doubleE) (simp add: finite_double_fl)

lemma finite_double_abs: "finite_double a \<Longrightarrow> finite_double \<bar>a\<bar>"
  by (elim finite_doubleE) (auto simp: finite_double_def abs_if fl_fixed_minus)

lemma finite_double_uminus: "finite_double a \<Longrightarrow> finite_double (- a)"
  by (elim finite_doubleE) (auto simp: finite_double_def fl_fixed_minus)

lemma plus_zero_double: "finite_double a \<Longrightarrow> a + 0 = a"
  by (elim finite_doubleE) (simp add: zero_double_def)

lemma zero_plus_double: "finite_double a \<Longrightarrow> 0 + a = a"
  by (elim finite_doubleE) (simp add: zero_double_def)

lemma times_one_double: "finite_double a \<Longrightarrow> a * 1 = a"
  by (elim finite_doubleE) (simp add: one_double_def)

lemma zero_times_one_double: "(0 :: double) * 1 = 0"
  by (simp add: zero_double_def one_double_def fl_0)

lemma finite_double_foldl_plus:
  "finite_double a \<Longrightarrow> \<forall>v \<in> set vs. finite_double v \<Longrightarrow> finite_double (foldl (+) a vs)"
  by (induction vs arbitrary: a) (simp_all add: finite_double_plus)

lemma finite_double_sum_from_zero:
  "\<forall>v \<in> set vs. finite_double v \<Longrightarrow> finite_double (sum_from_zero vs)"
  by (simp add: sum_from_zero_def finite_double_foldl_plus finite_double_0)

section \<open>Gershgorin regularisation\<close>

lemma fold_radius:
  "fold (\<lambda>(j, v) radius. if i \<noteq> j then radius + \<bar>v\<bar> else radius) row a =
     foldl (+) a (map (\<lambda>(j, v). \<bar>v\<bar>) (filter (\<lambda>(j, v). i \<noteq> j) row))"
  by (induction row arbitrary: a) auto

lemma gershgorin_radius_offdiag: "gershgorin_radius B i = offdiag_sum B i"
  by (simp add: gershgorin_radius_def offdiag_sum_def fold_radius sum_from_zero_def)

lemma finite_elem:
  assumes "finite_matrix H" and "i < length H"
  shows "finite_double (elem H i j)"
proof (cases "map_of (H ! i) j")
  case None
  then show ?thesis by (simp add: elem_def finite_double_0)
next
  case (Some v)
  then have "(j, v) \<in> set (H ! i)" by (rule map_of_SomeD)
  moreover have "H ! i \<in> set H" using assms(2) by simp
  ultimately have "finite_double v" using assms(1) by (auto simp: finite_matrix_def)
  with Some show ?thesis by (simp add: elem_def)
qed

lemma finite_offdiag_sum:
  assumes "finite_matrix H" and "i < length H"
  shows "finite_double (offdiag_sum H i)"
proof -
  have "H ! i \<in> set H" using assms(2) by simp
  then have "\<forall>(j, v) \<in> set (H ! i). finite_double v"
    using assms(1) by (auto simp: finite_matrix_def)
  then have "\<forall>v \<in> set (map (\<lambda>(j, v). \<bar>v\<bar>) (filter (\<lambda>(j, v). i \<noteq> j) (H ! i))). finite_double v"
    by (auto simp: finite_double_abs)
  then show ?thesis unfolding offdiag_sum_def by (rule finite_double_sum_from_zero)
qed

lemma finite_gershgorin_lower:
  assumes "finite_matrix H" and "i < length H"
  shows "finite_double (gershgorin_lower H i)"
  unfolding gershgorin_lower_def
  by (intro finite_double_minus finite_elem finite_offdiag_sum assms)


lemma reg_step_Fin:
  assumes "gershgorin_lower H i = Fin l"
  shows "reg_step H i (Fin r) = Fin (min l r)"
  using assms
  by (simp add: reg_step_def Let_def gershgorin_radius_offdiag gershgorin_lower_def min_def)

lemma fold_reg_step:
  assumes "\<forall>i \<in> set xs. gershgorin_lower H i = Fin (l i)"
  shows "fold (reg_step H) xs (Fin r) = Fin (Min (insert r (l ` set xs)))"
  using assms
proof (induction xs arbitrary: r)
  case Nil
  then show ?case by simp
next
  case (Cons x xs)
  have "fold (reg_step H) (x # xs) (Fin r) = Fin (Min (insert (min (l x) r) (l ` set xs)))"
    using Cons.prems by (simp add: reg_step_Fin Cons.IH)
  also have "Min (insert (min (l x) r) (l ` set xs)) = Min (insert r (l ` set (x # xs)))"
    by (cases "set xs = {}") (simp_all add: min.assoc min.commute min.left_commute)
  finally show ?case .
qed

lemma reg_param_least:
  assumes fin: "finite_matrix H" and ne: "H \<noteq> []"
  obtains tau where "least_of (gershgorin_lower H) (length H) (Fin tau)"
    and "fl tau = tau" and "gershgorin_reg_param H = Fin (min tau 0)"
proof -
  define l where "l i = val (gershgorin_lower H i)" for i
  have lam: "gershgorin_lower H i = Fin (l i) \<and> fl (l i) = l i" if "i < length H" for i
    using finite_gershgorin_lower [OF fin that]
    by (auto elim!: finite_doubleE simp: l_def val_def)
  define L where "L = l ` {..<length H}"
  have finL: "finite L" by (simp add: L_def)
  have "0 < length H" using ne by simp
  then have "l 0 \<in> L" unfolding L_def by blast
  then have neL: "L \<noteq> {}" by blast
  define tau where "tau = Min L"
  from Min_in [OF finL neL] obtain i0 where i0: "i0 < length H" "tau = l i0"
    by (auto simp: tau_def L_def)
  have le: "tau \<le> l i" if "i < length H" for i
    unfolding tau_def using finL that by (intro Min_le) (simp_all add: L_def)
  have least: "least_of (gershgorin_lower H) (length H) (Fin tau)"
    unfolding least_of_def
  proof (intro conjI allI impI)
    show "\<exists>i<length H. Fin tau = gershgorin_lower H i" using i0 lam by auto
    show "Fin tau \<le> gershgorin_lower H i" if "i < length H" for i
      using lam [OF that] le [OF that] by simp
  qed
  have fixd: "fl tau = tau" using i0 lam by simp
  have "gershgorin_reg_param H = Fin (Min (insert 0 (l ` set [0..<length H])))"
    unfolding gershgorin_reg_param_def zero_double_def
    by (rule fold_reg_step) (simp add: lam)
  also have "l ` set [0..<length H] = L" by (auto simp: L_def)
  also have "Min (insert 0 L) = min tau 0"
    using finL neL by (simp add: tau_def min.commute)
  finally have "gershgorin_reg_param H = Fin (min tau 0)" .
  with least fixd show ?thesis by (rule that)
qed

lemma length_add_eye: "length (add_eye c B) = length B"
  by (simp add: add_eye_def)

lemma map_of_shift_diag:
  "map_of (map (\<lambda>(j, v). (j, if j = i then v + c else v)) row) k =
     map_option (\<lambda>v. if k = i then v + c else v) (map_of row k)"
  by (induction row) auto

lemma elem_add_eye:
  assumes "i < length B" and c: "finite_double c"
  shows "elem (add_eye c B) i j = (if i = j then elem B i i + c else elem B i j)"
proof (cases "map_of (B ! i) i")
  case None
  then have row: "add_eye c B ! i = B ! i @ [(i, c * 1)]" using assms by (simp add: add_eye_def)
  show ?thesis using None c
    by (auto simp: elem_def row map_add_def times_one_double zero_plus_double
        split: option.splits)
next
  case (Some d)
  then have row: "add_eye c B ! i = map (\<lambda>(j, v). (j, if j = i then v + c * 1 else v)) (B ! i)"
    using assms by (simp add: add_eye_def)
  show ?thesis using Some c
    by (auto simp: elem_def row map_of_shift_diag times_one_double split: option.splits)
qed

lemma radius_add_eye:
  assumes "i < length B"
  shows "gershgorin_radius (add_eye c B) i = gershgorin_radius B i"
proof -
  have m: "filter (\<lambda>(j, v). i \<noteq> j) (map (\<lambda>(j, v). (j, if j = i then v + c * 1 else v)) row) =
           filter (\<lambda>(j, v). i \<noteq> j) row" for row :: "(nat \<times> double) list"
    by (induction row) auto
  show ?thesis
  proof (cases "map_of (B ! i) i")
    case None
    then show ?thesis using assms
      by (simp add: gershgorin_radius_offdiag offdiag_sum_def add_eye_def)
  next
    case (Some d)
    then show ?thesis using assms
      by (simp add: gershgorin_radius_offdiag offdiag_sum_def add_eye_def m)
  qed
qed

lemma reg_bound:
  fixes a r tau lam d :: real
  assumes "lam = fl (a - r)" and "tau \<le> lam" and "d = fl (a - tau)"
  shows "- (\<bar>a - r\<bar> + \<bar>a - tau\<bar>) / 2 ^ 53 \<le> d - r"
proof -
  define e1 where "e1 = \<bar>a - r\<bar> / 2 ^ 53"
  define e2 where "e2 = \<bar>a - tau\<bar> / 2 ^ 53"
  have "fl (a - r) - (a - r) \<le> e1"
    unfolding e1_def by (rule abs_le_D1 [OF fl_error])
  moreover have "- (fl (a - tau) - (a - tau)) \<le> e2"
    unfolding e2_def by (rule abs_le_D2 [OF fl_error])
  ultimately have "- (e1 + e2) \<le> d - r" using assms by linarith
  moreover have "- (\<bar>a - r\<bar> + \<bar>a - tau\<bar>) / 2 ^ 53 = - (e1 + e2)"
    by (simp add: e1_def e2_def add_divide_distrib)
  ultimately show ?thesis by simp
qed

text \<open>
  The parameter that the outer loop leaves in \<open>reg_param\<close> is the least of \<open>0\<close> and
  the numbers \<open>H\<^sub>i\<^sub>i - r\<^sub>i\<close>.
\<close>

lemma regularize_Bk_cases:
  assumes fin: "finite_matrix H" and ne: "H \<noteq> []"
  obtains tau where "least_of (gershgorin_lower H) (length H) (Fin tau)"
    and "fl tau = tau"
    and "tau < 0 \<Longrightarrow> regularize_Bk H = add_eye (Fin (- tau)) H"
    and "\<not> tau < 0 \<Longrightarrow> regularize_Bk H = add_eye 0 H"
proof -
  from reg_param_least [OF fin ne] obtain tau where
    t: "least_of (gershgorin_lower H) (length H) (Fin tau)" "fl tau = tau"
      "gershgorin_reg_param H = Fin (min tau 0)"
    by blast
  have "regularize_Bk H = add_eye (Fin (- tau)) H" if "tau < 0"
    using that by (simp add: regularize_Bk_def t(3) Let_def zero_double_def min_def)
  moreover have "regularize_Bk H = add_eye 0 H" if "\<not> tau < 0"
    using that by (simp add: regularize_Bk_def t(3) Let_def zero_double_def min_def)
  ultimately show ?thesis using t(1,2) by (intro that) auto
qed

text \<open>
  C3, with the bound that holds in the arithmetic of doubles. In exact-Hessian mode
  with \<open>regularize\<close>, let the Hessian \<open>H\<close> that \<open>H_\<close> returns have at least one row and
  finite entries. The radius that the inner loop adds up for row \<open>i\<close> is the sum
  \<open>r\<^sub>i\<close> of the absolute values off the diagonal; let \<open>tau\<close> be the least of the
  numbers \<open>H\<^sub>i\<^sub>i - r\<^sub>i\<close>. When \<open>tau < 0\<close> the matrix \<open>B\<close> that the pass goes on with
  has the diagonal entries \<open>H\<^sub>i\<^sub>i + (-tau)\<close> and the other entries of \<open>H\<close>; otherwise it
  has the entries of \<open>H\<close>. The radii of \<open>B\<close> are those of \<open>H\<close>. When \<open>B\<close> is \<open>H\<close> the
  lower bound \<open>B\<^sub>i\<^sub>i - r\<^sub>i\<close> of every row is at least \<open>0\<close>. In general it is at least
  \<open>-2\<^sup>-\<^sup>5\<^sup>3 (|H\<^sub>i\<^sub>i - r\<^sub>i| + |H\<^sub>i\<^sub>i - tau|)\<close>, the rounding errors of the difference
  \<open>H\<^sub>i\<^sub>i - r\<^sub>i\<close> and of the sum \<open>H\<^sub>i\<^sub>i + (-tau)\<close>; that it is at least \<open>0\<close>, as the claim
  has it, fails (the Hessian \<open>tenths_H\<close> below).
\<close>

theorem gershgorin_regularization:
  assumes exact: "hessian_approximation opts = Exact" and reg: "regularize opts"
    and H: "H = H_eval fx (st_x s) (if n_hess_in opts > 1 then Some (st_mu s, 1) else None)"
    and ne: "H \<noteq> []" and fin: "finite_matrix H"
  shows "let B = st_Bk (stage_hessian fx opts s)
         in (\<forall>i<length H. gershgorin_radius H i = offdiag_sum H i)
          \<and> length B = length H
          \<and> (\<forall>i<length H. gershgorin_radius B i = gershgorin_radius H i)
          \<and> (\<exists>tau. least_of (gershgorin_lower H) (length H) tau
                \<and> (tau < 0 \<longrightarrow>
                     (\<forall>i<length H. \<forall>j.
                        elem B i j = (if i = j then elem H i i + - tau else elem H i j)))
                \<and> (\<not> tau < 0 \<longrightarrow>
                     (\<forall>i<length H. \<forall>j. elem B i j = elem H i j)
                     \<and> (\<forall>i<length H. 0 \<le> val (elem B i i) - val (gershgorin_radius B i)))
                \<and> (\<forall>i<length H.
                      - (\<bar>val (elem H i i) - val (gershgorin_radius H i)\<bar>
                         + \<bar>val (elem H i i) - val tau\<bar>) / 2 ^ 53
                      \<le> val (elem B i i) - val (gershgorin_radius B i)))"
proof -
  define B where "B = st_Bk (stage_hessian fx opts s)"
  have B: "B = regularize_Bk H"
    by (simp add: B_def stage_hessian_def exact reg H Let_def)
  from regularize_Bk_cases [OF fin ne] obtain tau where
    least: "least_of (gershgorin_lower H) (length H) (Fin tau)"
    and fixd: "fl tau = tau"
    and neg: "tau < 0 \<Longrightarrow> regularize_Bk H = add_eye (Fin (- tau)) H"
    and nonneg: "\<not> tau < 0 \<Longrightarrow> regularize_Bk H = add_eye 0 H"
    by blast
  define c where "c = (if tau < 0 then Fin (- tau) else 0)"
  have Bc: "B = add_eye c H" using neg nonneg by (simp add: B c_def)
  have cfin: "finite_double c"
    by (simp add: c_def finite_double_0 finite_doubleI fl_fixed_minus fixd)
  have len: "length B = length H" by (simp add: Bc length_add_eye)
  have rad: "gershgorin_radius B i = gershgorin_radius H i" if "i < length H" for i
    using that by (simp add: Bc radius_add_eye)
  have el: "elem B i j = (if i = j then elem H i i + c else elem H i j)"
    if "i < length H" for i j
    using that cfin by (simp add: Bc elem_add_eye)
  have parts: "\<exists>a r. elem H i i = Fin a \<and> fl a = a \<and> gershgorin_radius H i = Fin r
      \<and> gershgorin_lower H i = Fin (fl (a - r)) \<and> tau \<le> fl (a - r)"
    if "i < length H" for i
  proof -
    from finite_elem [OF fin that, of i] obtain a where a: "elem H i i = Fin a" "fl a = a"
      by (rule finite_doubleE)
    from finite_offdiag_sum [OF fin that] obtain r where r: "offdiag_sum H i = Fin r"
      by (rule finite_doubleE)
    have lam: "gershgorin_lower H i = Fin (fl (a - r))"
      by (simp add: gershgorin_lower_def a r)
    from least that have "Fin tau \<le> gershgorin_lower H i" by (simp add: least_of_def)
    then have "tau \<le> fl (a - r)" by (simp add: lam)
    with a r lam show ?thesis by (simp add: gershgorin_radius_offdiag)
  qed
  have unchanged: "elem B i j = elem H i j" if "\<not> tau < 0" "i < length H" for i j
  proof (cases "i = j")
    case True
    have "elem H i i + 0 = elem H i i"
      by (rule plus_zero_double) (rule finite_elem [OF fin that(2)])
    then show ?thesis using el [OF that(2), of j] that(1) True by (simp add: c_def)
  next
    case False
    then show ?thesis using el [OF that(2), of j] by simp
  qed
  have exact_bound: "0 \<le> val (elem B i i) - val (gershgorin_radius B i)"
    if "\<not> tau < 0" "i < length H" for i
  proof -
    from parts [OF that(2)] obtain a r where
      p: "elem H i i = Fin a" "gershgorin_radius H i = Fin r" "tau \<le> fl (a - r)"
      by blast
    have "0 \<le> fl (a - r)" using p(3) that(1) by simp
    then have "0 \<le> a - r" using fl_neg [of "a - r"] by (cases "a - r < 0") simp_all
    then show ?thesis
      by (simp add: unchanged [OF that] rad [OF that(2)] p val_def)
  qed
  have bound: "- (\<bar>val (elem H i i) - val (gershgorin_radius H i)\<bar>
                  + \<bar>val (elem H i i) - val (Fin tau)\<bar>) / 2 ^ 53
               \<le> val (elem B i i) - val (gershgorin_radius B i)"
    if "i < length H" for i
  proof (cases "tau < 0")
    case True
    from parts [OF that] obtain a r where
      p: "elem H i i = Fin a" "gershgorin_radius H i = Fin r" "tau \<le> fl (a - r)"
      by blast
    have "elem B i i = Fin (fl (a - tau))"
      using el [OF that, of i] True by (simp add: c_def p)
    then show ?thesis
      using reg_bound [OF refl p(3) refl] by (simp add: rad [OF that] p val_def)
  next
    case False
    have "- (\<bar>val (elem H i i) - val (gershgorin_radius H i)\<bar>
                  + \<bar>val (elem H i i) - val (Fin tau)\<bar>) / 2 ^ 53 \<le> 0"
      by simp
    with exact_bound [OF False that] show ?thesis by linarith
  qed
  have shifted: "elem B i j = (if i = j then elem H i i + - Fin tau else elem H i j)"
    if "tau < 0" "i < length H" for i j
    using el [OF that(2), of j] that(1) by (simp add: c_def)
  have main: "least_of (gershgorin_lower H) (length H) (Fin tau)
      \<and> (Fin tau < 0 \<longrightarrow>
           (\<forall>i<length H. \<forall>j.
              elem B i j = (if i = j then elem H i i + - Fin tau else elem H i j)))
      \<and> (\<not> Fin tau < 0 \<longrightarrow>
           (\<forall>i<length H. \<forall>j. elem B i j = elem H i j)
           \<and> (\<forall>i<length H. 0 \<le> val (elem B i i) - val (gershgorin_radius B i)))
      \<and> (\<forall>i<length H.
            - (\<bar>val (elem H i i) - val (gershgorin_radius H i)\<bar>
               + \<bar>val (elem H i i) - val (Fin tau)\<bar>) / 2 ^ 53
            \<le> val (elem B i i) - val (gershgorin_radius B i))"
    using least shifted unchanged exact_bound bound by (simp add: zero_double_def)
  have c1: "\<forall>i<length H. gershgorin_radius H i = offdiag_sum H i"
    by (simp add: gershgorin_radius_offdiag)
  have c3: "\<forall>i<length H. gershgorin_radius B i = gershgorin_radius H i"
    using rad by blast
  from main have c4: "\<exists>tau. least_of (gershgorin_lower H) (length H) tau
      \<and> (tau < 0 \<longrightarrow>
           (\<forall>i<length H. \<forall>j.
              elem B i j = (if i = j then elem H i i + - tau else elem H i j)))
      \<and> (\<not> tau < 0 \<longrightarrow>
           (\<forall>i<length H. \<forall>j. elem B i j = elem H i j)
           \<and> (\<forall>i<length H. 0 \<le> val (elem B i i) - val (gershgorin_radius B i)))
      \<and> (\<forall>i<length H.
            - (\<bar>val (elem H i i) - val (gershgorin_radius H i)\<bar>
               + \<bar>val (elem H i i) - val tau\<bar>) / 2 ^ 53
            \<le> val (elem B i i) - val (gershgorin_radius B i))"
    by (rule exI [of _ "Fin tau"])
  show ?thesis
    unfolding Let_def B_def [symmetric]
    apply (intro conjI)
       apply (rule c1)
      apply (rule len)
     apply (rule c3)
    apply (rule c4)
    done
qed

lemma finite_double_dbl: "finite_double (dbl x)"
  by (simp add: dbl_def finite_double_fl)

lemma upt_0_2: "[0..<2] = [0, Suc 0]"
  by (simp add: numeral_2_eq_2 upt_rec)

lemmas regularize_defs =
  regularize_Bk_def gershgorin_reg_param_def reg_step_def gershgorin_radius_def add_eye_def
  elem_def

lemma coupled_regularized:
  "regularize_Bk coupled_H = [[(0, Fin 2), (1, Fin (- 2))], [(0, Fin (- 2)), (1, Fin 2)]]"
  by (simp add: coupled_H_def regularize_defs double_evals upt_0_2 Let_def)

theorem gershgorin_regularization_witness:
  "hessian_approximation (exact_options 2 0) = Exact \<and> regularize (exact_options 2 0)
   \<and> coupled_H =
       H_eval (hessian_fx coupled_H)
         (st_x (initial_state (exact_options 2 0) origin_input (qp_slots 2) qp_results))
         (if n_hess_in (exact_options 2 0) > 1
          then Some (st_mu (initial_state (exact_options 2 0) origin_input (qp_slots 2) qp_results), 1)
          else None)
   \<and> coupled_H \<noteq> [] \<and> finite_matrix coupled_H
   \<and> st_Bk (stage_hessian (hessian_fx coupled_H) (exact_options 2 0)
         (initial_state (exact_options 2 0) origin_input (qp_slots 2) qp_results))
       = [[(0, Fin 2), (1, Fin (- 2))], [(0, Fin (- 2)), (1, Fin 2)]]
   \<and> gershgorin_lower coupled_H 0 = Fin (- 1) \<and> gershgorin_lower coupled_H 1 = Fin (- 1)
   \<and> gershgorin_radius [[(0, Fin 2), (1, Fin (- 2))], [(0, Fin (- 2)), (1, Fin 2)]] 0
       = gershgorin_radius coupled_H 0
   \<and> gershgorin_radius [[(0, Fin 2), (1, Fin (- 2))], [(0, Fin (- 2)), (1, Fin 2)]] 1
       = gershgorin_radius coupled_H 1"
proof -
  let ?o = "exact_options 2 0"
  let ?s = "initial_state ?o origin_input (qp_slots 2) qp_results"
  let ?fx = "hessian_fx coupled_H"
  let ?B = "[[(0, Fin 2), (1, Fin (- 2))], [(0, Fin (- 2)), (1, Fin 2)]]"
  have h1: "hessian_approximation ?o = Exact" and h2: "regularize ?o"
    by (simp_all add: exact_options_def)
  have h3: "coupled_H = H_eval ?fx (st_x ?s) (if n_hess_in ?o > 1 then Some (st_mu ?s, 1) else None)"
    by (simp add: hessian_fx_def)
  have h4: "coupled_H \<noteq> []" by (simp add: coupled_H_def)
  have h5: "finite_matrix coupled_H"
    by (simp add: finite_matrix_def coupled_H_def finite_double_dbl)
  have B: "st_Bk (stage_hessian ?fx ?o ?s) = ?B"
    by (simp add: stage_hessian_def h1 h2 h3 [symmetric] coupled_regularized Let_def)
  have lam: "gershgorin_lower coupled_H 0 = Fin (- 1)" "gershgorin_lower coupled_H 1 = Fin (- 1)"
    by (simp_all add: gershgorin_lower_def offdiag_sum_def sum_from_zero_def elem_def
        coupled_H_def double_evals)
  from gershgorin_regularization [OF h1 h2 h3 h4 h5]
  have "\<forall>i<length coupled_H.
      gershgorin_radius (st_Bk (stage_hessian ?fx ?o ?s)) i = gershgorin_radius coupled_H i"
    by (simp add: Let_def)
  then have "\<forall>i<2. gershgorin_radius ?B i = gershgorin_radius coupled_H i"
    unfolding B by (simp add: coupled_H_def)
  then have "gershgorin_radius ?B 0 = gershgorin_radius coupled_H 0"
    and "gershgorin_radius ?B 1 = gershgorin_radius coupled_H 1"
    by simp_all
  with h1 h2 h3 h4 h5 B lam show ?thesis by blast
qed

text \<open>
  C3 says that after the regularisation the lower bound \<open>B\<^sub>i\<^sub>i - r\<^sub>i\<close> of every row
  is at least \<open>0\<close>. For the Hessian \<open>[[0.2, 0.9], [0.9, 0.2]]\<close> the difference
  \<open>0.2 - 0.9\<close> is rounded to \<open>tau = -0.7\<close>, and the sum \<open>0.2 + 0.7\<close> to
  \<open>0.8999999999999999\<close>, one unit in the last place below the radius \<open>0.9\<close>: the lower
  bound of row 0 of the regularised matrix is \<open>-2\<^sup>-\<^sup>5\<^sup>3\<close>.
\<close>

theorem gershgorin_rounding_counterexample:
  "hessian_approximation (exact_options 2 0) = Exact \<and> regularize (exact_options 2 0)
   \<and> tenths_H = [[(0, Fin (3602879701896397 / 2 ^ 54)), (1, Fin (8106479329266893 / 2 ^ 53))],
                  [(0, Fin (8106479329266893 / 2 ^ 53)), (1, Fin (3602879701896397 / 2 ^ 54))]]
   \<and> st_Bk (stage_hessian (hessian_fx tenths_H) (exact_options 2 0)
         (initial_state (exact_options 2 0) origin_input (qp_slots 2) qp_results))
       = [[(0, Fin (8106479329266892 / 2 ^ 53)), (1, Fin (8106479329266893 / 2 ^ 53))],
          [(0, Fin (8106479329266893 / 2 ^ 53)), (1, Fin (8106479329266892 / 2 ^ 53))]]
   \<and> (let B = st_Bk (stage_hessian (hessian_fx tenths_H) (exact_options 2 0)
                    (initial_state (exact_options 2 0) origin_input (qp_slots 2) qp_results))
      in elem B 0 0 - gershgorin_radius B 0 = Fin (- (1 / 2 ^ 53))
       \<and> \<not> (0 \<le> elem B 0 0 - gershgorin_radius B 0)
       \<and> \<not> (0 \<le> val (elem B 0 0) - val (gershgorin_radius B 0)))"
  by (simp add: stage_hessian_def exact_options_def default_options_def hessian_fx_def
      tenths_H_def regularize_defs double_evals upt_0_2 Let_def val_def)

section \<open>The curvature that line 494 divides by\<close>

text \<open>
  Line 494 divides by the inner product of \<open>sk\<close> and the damped \<open>yk\<close>, a sum of
  rounded products, and its terms can cancel. With \<open>s = [1, 1]\<close>,
  \<open>y = [-10\<^sup>1\<^sup>6, 10\<^sup>1\<^sup>6]\<close> and \<open>B\<close> the identity, \<open>s'Bs = 2\<close>, \<open>s'y = 0\<close> and
  \<open>omega = 0.8\<close>, so that \<open>omega s'y + (1 - omega) s'Bs\<close> is about \<open>0.4\<close>; the entries
  of the damped \<open>yk\<close> are rounded to \<open>-8 10\<^sup>1\<^sup>5\<close> and \<open>8 10\<^sup>1\<^sup>5\<close>, their inner product
  with \<open>sk\<close> is \<open>0\<close>, and \<open>theta = 1 / 0\<close> is infinite.
\<close>

lemma damped_curvature_cancels:
  "powell_omega [1, 1] [Fin (- (10 ^ 16)), Fin (10 ^ 16)] (mul (eye_dense 2) [1, 1])
     = Fin (3602879701896397 / 2 ^ 52)
   \<and> inner_prod [1, 1] (mul (eye_dense 2) [1, 1]) = Fin 2
   \<and> inner_prod [Fin (- (10 ^ 16)), Fin (10 ^ 16)] [1, 1] = Fin 0
   \<and> inner_prod [1, 1]
        (damp_yk (Fin (3602879701896397 / 2 ^ 52)) [Fin (- (10 ^ 16)), Fin (10 ^ 16)]
           (mul (eye_dense 2) [1, 1])) = Fin 0
   \<and> 1 / inner_prod [1, 1]
        (damp_yk (Fin (3602879701896397 / 2 ^ 52)) [Fin (- (10 ^ 16)), Fin (10 ^ 16)]
           (mul (eye_dense 2) [1, 1])) = PInf"
  by (simp add: kernel_defs upt_0_2 double_evals)

section \<open>A pass of the main loop, field by field\<close>

lemmas before_defs =
  before_line_search_def stage_merit_def stage_penalty_def stage_qp_solve_def
  stage_qp_inputs_def stage_objective_def stage_constraints_def stage_hessian_def
  stage_header_def

lemmas after_defs =
  after_line_search_def stage_kkt_def stage_bfgs_def stage_gLag_def stage_commit_def

lemma before_line_search_x: "st_x (before_line_search fx opts inp s) = st_x s"
  by (simp add: before_defs Let_def)


lemma before_line_search_qp_out:
  "st_qp_out (before_line_search fx opts inp s) =
     qp_solver fx (st_qp_in (before_line_search fx opts inp s))"
  by (simp add: before_defs Let_def)

lemma before_line_search_p:
  "st_p (before_line_search fx opts inp s) =
     QP_PRIMAL (st_qp_out (before_line_search fx opts inp s))"
  by (simp add: before_defs Let_def)

lemma before_line_search_sigma:
  "st_sigma (before_line_search fx opts inp s) =
     penalty_update (m_dim opts) (QP_LAMBDA_A (st_qp_out (before_line_search fx opts inp s)))
       (st_sigma s)"
  by (simp add: before_defs Let_def)

lemma before_line_search_LBX:
  "QP_LBX (st_qp_in (before_line_search fx opts inp s)) =
     transform_minus (NLP_LBX inp) (st_x s) (QP_LBX (st_qp_in s))"
  by (simp add: before_defs qp_assemble_def Let_def)

lemma before_line_search_UBX:
  "QP_UBX (st_qp_in (before_line_search fx opts inp s)) =
     transform_minus (NLP_UBX inp) (st_x s) (QP_UBX (st_qp_in s))"
  by (simp add: before_defs qp_assemble_def Let_def)

lemma before_line_search_LBA:
  "0 < m_dim opts \<Longrightarrow>
   QP_LBA (st_qp_in (before_line_search fx opts inp s)) =
     map2 (-) (NLP_LBG inp) (G_output fx (st_x s))"
  by (simp add: before_defs qp_assemble_def Let_def)

lemma before_line_search_UBA:
  "0 < m_dim opts \<Longrightarrow>
   QP_UBA (st_qp_in (before_line_search fx opts inp s)) =
     map2 (-) (NLP_UBG inp) (G_output fx (st_x s))"
  by (simp add: before_defs qp_assemble_def Let_def)

lemma before_line_search_no_constraints:
  "m_dim opts = 0 \<Longrightarrow>
   QP_LBA (st_qp_in (before_line_search fx opts inp s)) = QP_LBA (st_qp_in s) \<and>
   QP_UBA (st_qp_in (before_line_search fx opts inp s)) = QP_UBA (st_qp_in s)"
  by (simp add: before_defs qp_assemble_def Let_def)

text \<open>What the line search and the rest of the pass leave as they found it.\<close>

lemma stage_line_search_frame:
  assumes "stage_line_search fx opts inp s = Some s'"
  shows "st_sigma s' = st_sigma s" and "st_qp_in s' = st_qp_in s"
    and "st_qp_out s' = st_qp_out s" and "st_p s' = st_p s" and "st_x s' = st_x s"
    and "st_it_counter s' = st_it_counter s"
  using assms by (auto simp: stage_line_search_def split: option.splits)

lemma stage_bfgs_cases:
  obtains (trap) "hessian_approximation opts = Limited_memory" "lbfgs_memory opts = 0"
      "stage_bfgs opts s = Inl Modulo_by_zero"
    | (update) Bk where "stage_bfgs opts s = Inr (s\<lparr>st_Bk := Bk\<rparr>)"
        "hessian_approximation opts = Exact \<or> lbfgs_memory opts \<noteq> 0"
proof (cases "hessian_approximation opts = Limited_memory \<and> lbfgs_memory opts = 0")
  case True
  then have "stage_bfgs opts s = Inl Modulo_by_zero"
    by (simp add: stage_bfgs_def bfgs_update_def)
  with True show ?thesis by (intro trap) simp_all
next
  case False
  then have ok: "hessian_approximation opts = Exact \<or> lbfgs_memory opts \<noteq> 0"
    by (cases "hessian_approximation opts") simp_all
  show ?thesis
  proof (cases "hessian_approximation opts")
    case Exact
    then have "stage_bfgs opts s = Inr (s\<lparr>st_Bk := st_Bk s\<rparr>)" by (simp add: stage_bfgs_def)
    then show ?thesis using ok by (rule update)
  next
    case Limited_memory
    with False have "lbfgs_memory opts \<noteq> 0" by simp
    with Limited_memory obtain Bk where "stage_bfgs opts s = Inr (s\<lparr>st_Bk := Bk\<rparr>)"
      by (auto simp: stage_bfgs_def bfgs_update_def)
    then show ?thesis using ok by (rule update)
  qed
qed

lemma after_line_search_Inr:
  assumes "after_line_search fx opts inp s = Inr u"
  obtains Bk where
    "u = stage_kkt fx opts inp ((stage_gLag fx opts (stage_commit opts s))\<lparr>st_Bk := Bk\<rparr>)"
    "hessian_approximation opts = Exact \<or> lbfgs_memory opts \<noteq> 0"
proof -
  let ?c = "stage_gLag fx opts (stage_commit opts s)"
  show ?thesis
  proof (cases opts ?c rule: stage_bfgs_cases)
    case trap
    with assms show ?thesis by (simp add: after_line_search_def)
  next
    case (update Bk)
    with assms have "u = stage_kkt fx opts inp (?c\<lparr>st_Bk := Bk\<rparr>)"
      by (auto simp: after_line_search_def)
    then show ?thesis using update(2) by (rule that)
  qed
qed



lemma after_line_search_frame:
  assumes "after_line_search fx opts inp s = Inr u"
  shows "st_sigma u = st_sigma s" and "st_qp_in u = st_qp_in s"
    and "st_qp_out u = st_qp_out s" and "st_p u = st_p s"
    and "st_it_counter u = st_it_counter s" and "st_x u = st_x_cand s"
    and "st_fk u = st_fk_cand s" and "st_gk u = st_gk_cand s"
proof -
  from assms obtain Bk where
    u: "u = stage_kkt fx opts inp ((stage_gLag fx opts (stage_commit opts s))\<lparr>st_Bk := Bk\<rparr>)"
    by (rule after_line_search_Inr)
  show "st_sigma u = st_sigma s" and "st_qp_in u = st_qp_in s"
    and "st_qp_out u = st_qp_out s" and "st_p u = st_p s"
    and "st_it_counter u = st_it_counter s" and "st_x u = st_x_cand s"
    and "st_fk u = st_fk_cand s" and "st_gk u = st_gk_cand s"
    by (simp_all add: u stage_kkt_def stage_gLag_def stage_commit_def Let_def)
qed

lemma stage_exit_frame:
  "st_sigma (fst (stage_exit fx opts s)) = st_sigma s"
  "st_qp_in (fst (stage_exit fx opts s)) = st_qp_in s"
  "st_qp_out (fst (stage_exit fx opts s)) = st_qp_out s"
  "st_p (fst (stage_exit fx opts s)) = st_p s"
  "st_x (fst (stage_exit fx opts s)) = st_x s"
  "st_pr_inf (fst (stage_exit fx opts s)) = st_pr_inf s"
  "st_gLag_norm1 (fst (stage_exit fx opts s)) = st_gLag_norm1 s"
  by (simp_all add: stage_exit_def)

lemma callback_aborts_cong:
  "st_it_counter s' = st_it_counter s \<Longrightarrow> st_fk s' = st_fk s \<Longrightarrow> st_x s' = st_x s \<Longrightarrow>
   st_mu s' = st_mu s \<Longrightarrow> st_mu_x s' = st_mu_x s \<Longrightarrow> st_gk s' = st_gk s \<Longrightarrow>
   callback_aborts fx s' = callback_aborts fx s"
  by (cases "callback fx") (simp_all add: callback_aborts_def callback_answer_def)


lemma sqp_iteration_split:
  assumes "sqp_iteration fx opts inp s = Some (Inr (s', ex))"
  obtains s1 u where
    "stage_line_search fx opts inp (before_line_search fx opts inp s) = Some s1"
    and "after_line_search fx opts inp s1 = Inr u"
    and "stage_exit fx opts u = (s', ex)"
  using assms by (auto simp: sqp_iteration_def split: option.splits sum.splits)


lemma sqp_iteration_frame:
  assumes "sqp_iteration fx opts inp s = Some (Inr (s', ex))"
  shows "st_sigma s' = st_sigma (before_line_search fx opts inp s)"
    and "st_qp_in s' = st_qp_in (before_line_search fx opts inp s)"
    and "st_qp_out s' = st_qp_out (before_line_search fx opts inp s)"
    and "st_p s' = st_p (before_line_search fx opts inp s)"
proof -
  from assms obtain s1 u where
    ls: "stage_line_search fx opts inp (before_line_search fx opts inp s) = Some s1"
    and al: "after_line_search fx opts inp s1 = Inr u"
    and ex: "stage_exit fx opts u = (s', ex)"
    by (rule sqp_iteration_split)
  from ex have s': "s' = fst (stage_exit fx opts u)" by simp
  show "st_sigma s' = st_sigma (before_line_search fx opts inp s)"
    and "st_qp_in s' = st_qp_in (before_line_search fx opts inp s)"
    and "st_qp_out s' = st_qp_out (before_line_search fx opts inp s)"
    and "st_p s' = st_p (before_line_search fx opts inp s)"
    by (simp_all add: s' stage_exit_frame after_line_search_frame [OF al]
        stage_line_search_frame [OF ls])
qed

section \<open>The penalty parameter\<close>

lemma double_le_refl: "(x :: double) \<noteq> NaN \<Longrightarrow> x \<le> x"
  by (cases x) simp_all

lemma double_le_trans: "(x :: double) \<le> y \<Longrightarrow> y \<le> z \<Longrightarrow> x \<le> z"
  by (cases x; cases y; cases z) simp_all

lemma double_less_imp_le: "(x :: double) < y \<Longrightarrow> x \<le> y"
  by (cases x; cases y) simp_all

lemma double_le_not_NaN: "(x :: double) \<le> y \<Longrightarrow> x \<noteq> NaN \<and> y \<noteq> NaN"
  by (cases x; cases y) simp_all

lemma fl_penalty_factor: "fl (101 / 100) = 4548635623644201 / 2 ^ 52"
  by (simp add: fl_evals)

lemma penalty_step:
  assumes "sg < \<bar>mu\<bar>"
  shows "sg \<le> \<bar>mu\<bar> * dbl 1.01 \<and> \<bar>mu\<bar> * dbl 1.01 \<noteq> NaN"
proof (cases mu)
  case (Fin a)
  define c :: real where "c = 4548635623644201 / 2 ^ 52"
  have new: "Fin \<bar>a\<bar> * dbl (101 / 100) = Fin (fl (\<bar>a\<bar> * c))"
    by (simp add: dbl_def fl_penalty_factor c_def)
  have "\<bar>a\<bar> * 1 \<le> \<bar>a\<bar> * (c * (1 - 1 / 2 ^ 53))"
    by (intro mult_left_mono) (simp_all add: c_def)
  also have "\<dots> = \<bar>a\<bar> * c * (1 - 1 / 2 ^ 53)" by simp
  also have "\<dots> \<le> fl (\<bar>a\<bar> * c)" by (intro fl_lower) (simp add: c_def)
  finally have ge: "\<bar>a\<bar> \<le> fl (\<bar>a\<bar> * c)" by simp
  from assms Fin ge show ?thesis by (cases sg) (simp_all add: new)
next
  case PInf
  with assms show ?thesis by (cases sg) (simp_all add: dbl_def fl_penalty_factor)
next
  case NInf
  with assms show ?thesis by (cases sg) (simp_all add: dbl_def fl_penalty_factor)
next
  case NaN
  with assms show ?thesis by (cases sg) simp_all
qed

lemma penalty_update_mono:
  assumes "sigma \<noteq> NaN"
  shows "sigma \<le> penalty_update m mu_qp sigma \<and> penalty_update m mu_qp sigma \<noteq> NaN"
proof -
  let ?f = "\<lambda>j sg. if \<bar>mu_qp ! j\<bar> > sg then \<bar>mu_qp ! j\<bar> * dbl 1.01 else sg"
  have "sigma \<le> fold ?f js sigma \<and> fold ?f js sigma \<noteq> NaN" if "sigma \<noteq> NaN" for js sigma
    using that
  proof (induction js arbitrary: sigma)
    case Nil
    then show ?case by (simp add: double_le_refl)
  next
    case (Cons j js)
    let ?sg = "?f j sigma"
    have step: "sigma \<le> ?sg \<and> ?sg \<noteq> NaN"
      using Cons.prems penalty_step [of sigma "mu_qp ! j"] by (simp add: double_le_refl)
    then have "?sg \<le> fold ?f js ?sg \<and> fold ?f js ?sg \<noteq> NaN" by (intro Cons.IH) simp
    with step show ?case by (auto intro: double_le_trans)
  qed
  with assms show ?thesis by (simp add: penalty_update_def)
qed

lemma sqp_iteration_sigma:
  assumes "sqp_iteration fx opts inp s = Some (Inr (s', ex))"
  shows "st_sigma s' = penalty_update (m_dim opts) (QP_LAMBDA_A (st_qp_out s')) (st_sigma s)"
  by (simp add: sqp_iteration_frame [OF assms] before_line_search_sigma [symmetric])

lemma penalty_update_foldl:
  "penalty_update m mu_qp sigma =
     foldl (\<lambda>sigma mu. if sigma < \<bar>mu\<bar> then \<bar>mu\<bar> * dbl 1.01 else sigma) sigma
       (map (\<lambda>j. mu_qp ! j) [0..<m])"
  by (simp add: penalty_update_def foldl_conv_fold fold_map comp_def)

lemma reachable_sigma_mono:
  "reachable fx opts inp s0 s \<Longrightarrow> st_sigma s0 \<noteq> NaN \<Longrightarrow>
   st_sigma s0 \<le> st_sigma s \<and> st_sigma s \<noteq> NaN"
proof (induction rule: reachable.induct)
  case start
  then show ?case by (simp add: double_le_refl)
next
  case (pass s s')
  then have s: "st_sigma s0 \<le> st_sigma s" "st_sigma s \<noteq> NaN" by simp_all
  from sqp_iteration_sigma [OF pass.hyps(2)] penalty_update_mono [OF s(2)]
  have "st_sigma s \<le> st_sigma s' \<and> st_sigma s' \<noteq> NaN" by simp
  with s(1) show ?case by (auto intro: double_le_trans)
qed

section \<open>The main loop\<close>







section \<open>The line search returns\<close>

lemma line_search_returns:
  "ls_counter \<le> maxiter_ls opts \<Longrightarrow> \<exists>r. line_search fx opts inp s t ls_counter = Some r"
proof (induction "nat (maxiter_ls opts - ls_counter)" arbitrary: t ls_counter)
  case 0
  then have "ls_counter = maxiter_ls opts" by simp
  then show ?case
    by (subst line_search.simps) (simp split: prod.splits)
next
  case (Suc k)
  then have k: "k = nat (maxiter_ls opts - (ls_counter + 1))"
    and le: "ls_counter + 1 \<le> maxiter_ls opts" by simp_all
  from Suc.hyps(1) [OF k le]
  obtain r where "line_search fx opts inp s (beta opts * t) (ls_counter + 1) = Some r"
    by blast
  then show ?case
    by (subst line_search.simps) (simp split: prod.splits)
qed


lemma line_search_x_cand:
  assumes "line_search fx opts inp s t ls_counter = Some r"
  shows "length (ls_x_cand r) = n_dim opts"
proof (rule line_search.raw_induct
    [where P = "\<lambda>fx opts inp s t ls_counter r. length (ls_x_cand r) = n_dim opts",
     OF _ assms])
  fix ls fx opts inp s t ls_counter r
  assume IH: "\<And>fx opts inp s t ls_counter r.
      ls fx opts inp s t ls_counter = Some r \<Longrightarrow> length (ls_x_cand r) = n_dim opts"
    and body: "(case trial fx opts inp s t of
        (x_cand, fk_cand, gk_cand, L1merit_cand) \<Rightarrow>
          if armijo fx opts inp s t
          then Some \<lparr>ls_t = t, ls_trials = ls_counter, ls_x_cand = x_cand,
                      ls_fk_cand = fk_cand, ls_gk_cand = gk_cand\<rparr>
          else if ls_counter = maxiter_ls opts
          then Some \<lparr>ls_t = beta opts * t, ls_trials = ls_counter, ls_x_cand = x_cand,
                      ls_fk_cand = fk_cand, ls_gk_cand = gk_cand\<rparr>
          else ls fx opts inp s (beta opts * t) (ls_counter + 1)) = Some r"
  have len: "length (fst (trial fx opts inp s t)) = n_dim opts"
    by (simp add: trial_def Let_def)
  from body len show "length (ls_x_cand r) = n_dim opts"
    by (auto split: prod.splits if_splits dest: IH)
qed


lemma sqp_iteration_ends:
  assumes "1 \<le> maxiter_ls opts"
  shows "\<exists>res. sqp_iteration fx opts inp s = Some res"
proof -
  from line_search_returns [OF assms]
  obtain r where "line_search fx opts inp (before_line_search fx opts inp s) 1 1 = Some r"
    by blast
  then show ?thesis
    by (simp add: sqp_iteration_def stage_line_search_def split: sum.splits)
qed

text \<open>
  How the search ends: either the Armijo test held at the stepsize it returns, and
  the candidate is the one of that stepsize; or the test failed at the last trial
  allowed, the candidate is the one of that trial, and the stepsize returned is
  \<open>beta\<close> times the stepsize of that trial.
\<close>

lemma line_search_outcome:
  assumes "line_search fx opts inp s t ls_counter = Some r"
  shows "(armijo fx opts inp s (ls_t r) \<and> ls_x_cand r = fst (trial fx opts inp s (ls_t r)))
       \<or> (\<exists>t_last. \<not> armijo fx opts inp s t_last \<and> ls_t r = beta opts * t_last
             \<and> ls_x_cand r = fst (trial fx opts inp s t_last)
             \<and> ls_trials r = maxiter_ls opts)"
proof (rule line_search.raw_induct
    [where P = "\<lambda>fx opts inp s t ls_counter r.
       (armijo fx opts inp s (ls_t r) \<and> ls_x_cand r = fst (trial fx opts inp s (ls_t r)))
       \<or> (\<exists>t_last. \<not> armijo fx opts inp s t_last \<and> ls_t r = beta opts * t_last
             \<and> ls_x_cand r = fst (trial fx opts inp s t_last)
             \<and> ls_trials r = maxiter_ls opts)",
     OF _ assms])
  fix ls fx opts inp s t ls_counter r
  assume IH: "\<And>fx opts inp s t ls_counter r.
      ls fx opts inp s t ls_counter = Some r \<Longrightarrow>
      (armijo fx opts inp s (ls_t r) \<and> ls_x_cand r = fst (trial fx opts inp s (ls_t r)))
       \<or> (\<exists>t_last. \<not> armijo fx opts inp s t_last \<and> ls_t r = beta opts * t_last
             \<and> ls_x_cand r = fst (trial fx opts inp s t_last)
             \<and> ls_trials r = maxiter_ls opts)"
    and body: "(case trial fx opts inp s t of
        (x_cand, fk_cand, gk_cand, L1merit_cand) \<Rightarrow>
          if armijo fx opts inp s t
          then Some \<lparr>ls_t = t, ls_trials = ls_counter, ls_x_cand = x_cand,
                      ls_fk_cand = fk_cand, ls_gk_cand = gk_cand\<rparr>
          else if ls_counter = maxiter_ls opts
          then Some \<lparr>ls_t = beta opts * t, ls_trials = ls_counter, ls_x_cand = x_cand,
                      ls_fk_cand = fk_cand, ls_gk_cand = gk_cand\<rparr>
          else ls fx opts inp s (beta opts * t) (ls_counter + 1)) = Some r"
  obtain xc fc gc Lc where tr: "trial fx opts inp s t = (xc, fc, gc, Lc)"
    by (cases "trial fx opts inp s t")
  show "(armijo fx opts inp s (ls_t r) \<and> ls_x_cand r = fst (trial fx opts inp s (ls_t r)))
       \<or> (\<exists>t_last. \<not> armijo fx opts inp s t_last \<and> ls_t r = beta opts * t_last
             \<and> ls_x_cand r = fst (trial fx opts inp s t_last)
             \<and> ls_trials r = maxiter_ls opts)"
  proof (cases "armijo fx opts inp s t")
    case True
    with body tr have "r = \<lparr>ls_t = t, ls_trials = ls_counter, ls_x_cand = xc,
        ls_fk_cand = fc, ls_gk_cand = gc\<rparr>" by simp
    with True tr show ?thesis by simp
  next
    case False
    show ?thesis
    proof (cases "ls_counter = maxiter_ls opts")
      case True
      with body tr False have "r = \<lparr>ls_t = beta opts * t, ls_trials = ls_counter,
          ls_x_cand = xc, ls_fk_cand = fc, ls_gk_cand = gc\<rparr>" by simp
      with True False tr have "\<not> armijo fx opts inp s t \<and> ls_t r = beta opts * t
          \<and> ls_x_cand r = fst (trial fx opts inp s t) \<and> ls_trials r = maxiter_ls opts"
        by simp
      then show ?thesis by blast
    next
      case neq: False
      with body tr False have "ls fx opts inp s (beta opts * t) (ls_counter + 1) = Some r"
        by simp
      then show ?thesis by (rule IH)
    qed
  qed
qed

lemma sqp_iteration_x_length:
  assumes "sqp_iteration fx opts inp s = Some (Inr (s', ex))"
  shows "length (st_x s') = n_dim opts"
proof -
  from assms obtain s1 u where
    ls: "stage_line_search fx opts inp (before_line_search fx opts inp s) = Some s1"
    and al: "after_line_search fx opts inp s1 = Inr u"
    and ex: "stage_exit fx opts u = (s', ex)"
    by (rule sqp_iteration_split)
  from ls obtain r where
    "line_search fx opts inp (before_line_search fx opts inp s) 1 1 = Some r"
    and "st_x_cand s1 = ls_x_cand r"
    by (auto simp: stage_line_search_def split: option.splits)
  then have "length (st_x_cand s1) = n_dim opts" by (simp add: line_search_x_cand)
  moreover from ex have "s' = fst (stage_exit fx opts u)" by simp
  ultimately show ?thesis by (simp add: stage_exit_frame after_line_search_frame [OF al])
qed

section \<open>The bounds of the QP\<close>

lemma transform_minus_map2:
  assumes "length a = length b" and "length dest \<le> length a"
  shows "transform_minus a b dest = map2 (-) a b"
  using assms by (auto simp: transform_minus_def intro!: nth_equalityI)

lemma reachable_lengths:
  assumes "length (NLP_X_INIT inp) = n_dim opts"
    and "length (NLP_LBX inp) = n_dim opts" and "length (NLP_UBX inp) = n_dim opts"
    and "length (QP_LBX qp0) = n_dim opts" and "length (QP_UBX qp0) = n_dim opts"
    and "reachable fx opts inp (initial_state opts inp qp0 out0) s"
  shows "length (st_x s) = n_dim opts \<and> length (QP_LBX (st_qp_in s)) = n_dim opts
         \<and> length (QP_UBX (st_qp_in s)) = n_dim opts"
  using assms(6)
proof (induction rule: reachable.induct)
  case start
  then show ?case using assms(1-5) by (simp add: initial_state_def)
next
  case (pass s s')
  note it = pass.hyps(2)
  have "length (st_x s') = n_dim opts" by (rule sqp_iteration_x_length [OF it])
  moreover have "QP_LBX (st_qp_in s') = map2 (-) (NLP_LBX inp) (st_x s)"
    using pass.IH assms(2)
    by (simp add: sqp_iteration_frame [OF it] before_line_search_LBX transform_minus_map2)
  moreover have "QP_UBX (st_qp_in s') = map2 (-) (NLP_UBX inp) (st_x s)"
    using pass.IH assms(3)
    by (simp add: sqp_iteration_frame [OF it] before_line_search_UBX transform_minus_map2)
  ultimately show ?case using pass.IH assms(2,3) by simp
qed

text \<open>
  C6. In every pass of the main loop of a run (vectors of the lengths \<open>n_\<close> that
  \<open>init\<close> gives them), the QP solver is run on input slots in which, componentwise,
  \<open>LBX = lbx - x\<close> and \<open>UBX = ubx - x\<close> and, when \<open>m_ > 0\<close> and \<open>g\<close> is the
  constraint function, \<open>LBA = lbg - g(x)\<close> and \<open>UBA = ubg - g(x)\<close>, for the iterate
  \<open>x\<close> at which the pass starts: the solver gets the shifted bounds, not the bounds of
  the problem. The statement is about the state \<open>b\<close> in which the pass stands when the
  QP has been solved, before the line search; a pass that goes on to its exits leaves
  the slots as they are in \<open>b\<close>.
\<close>

theorem qp_bounds_shifted:
  assumes "length (NLP_X_INIT inp) = n_dim opts"
    and "length (NLP_LBX inp) = n_dim opts" and "length (NLP_UBX inp) = n_dim opts"
    and "length (QP_LBX qp0) = n_dim opts" and "length (QP_UBX qp0) = n_dim opts"
    and "reachable fx opts inp (initial_state opts inp qp0 out0) s"
  shows "let b = before_line_search fx opts inp s
         in st_qp_out b = qp_solver fx (st_qp_in b)
          \<and> QP_LBX (st_qp_in b) = map2 (-) (NLP_LBX inp) (st_x s)
          \<and> QP_UBX (st_qp_in b) = map2 (-) (NLP_UBX inp) (st_x s)
          \<and> (\<forall>i<n_dim opts. QP_LBX (st_qp_in b) ! i = NLP_LBX inp ! i - st_x s ! i
                          \<and> QP_UBX (st_qp_in b) ! i = NLP_UBX inp ! i - st_x s ! i)
          \<and> (\<forall>g. 0 < m_dim opts \<and> G_fx fx = Some g \<longrightarrow>
                 QP_LBA (st_qp_in b) = map2 (-) (NLP_LBG inp) (g (st_x s))
               \<and> QP_UBA (st_qp_in b) = map2 (-) (NLP_UBG inp) (g (st_x s)))
          \<and> (\<forall>s' ex. sqp_iteration fx opts inp s = Some (Inr (s', ex)) \<longrightarrow>
                 st_qp_in s' = st_qp_in b \<and> st_qp_out s' = st_qp_out b)"
proof -
  define b where "b = before_line_search fx opts inp s"
  note len = reachable_lengths [OF assms]
  have out: "st_qp_out b = qp_solver fx (st_qp_in b)"
    unfolding b_def by (rule before_line_search_qp_out)
  have lbx: "QP_LBX (st_qp_in b) = map2 (-) (NLP_LBX inp) (st_x s)"
    using len assms(2) by (simp add: b_def before_line_search_LBX transform_minus_map2)
  have ubx: "QP_UBX (st_qp_in b) = map2 (-) (NLP_UBX inp) (st_x s)"
    using len assms(3) by (simp add: b_def before_line_search_UBX transform_minus_map2)
  have comp: "\<forall>i<n_dim opts. QP_LBX (st_qp_in b) ! i = NLP_LBX inp ! i - st_x s ! i
                       \<and> QP_UBX (st_qp_in b) ! i = NLP_UBX inp ! i - st_x s ! i"
    using len assms(2,3) by (simp add: lbx ubx)
  have lba: "QP_LBA (st_qp_in b) = map2 (-) (NLP_LBG inp) (g (st_x s))
          \<and> QP_UBA (st_qp_in b) = map2 (-) (NLP_UBG inp) (g (st_x s))"
    if "0 < m_dim opts \<and> G_fx fx = Some g" for g
    using that
    by (simp add: b_def before_line_search_LBA before_line_search_UBA G_output_def)
  have rest: "st_qp_in s' = st_qp_in b \<and> st_qp_out s' = st_qp_out b"
    if "sqp_iteration fx opts inp s = Some (Inr (s', ex))" for s' ex
    by (simp add: b_def sqp_iteration_frame [OF that])
  from out lbx ubx comp lba rest show ?thesis
    unfolding Let_def b_def [symmetric] by blast
qed

section \<open>Running the driver on the example problems\<close>

lemmas stage_defs =
  sqp_iteration_def stage_line_search_def before_line_search_def after_line_search_def
  stage_header_def stage_hessian_def stage_constraints_def stage_objective_def
  stage_qp_inputs_def qp_assemble_def transform_minus_def transform_plus_def stage_qp_solve_def
  stage_penalty_def penalty_update_def stage_merit_def l1_infeasibility_def
  trial_def armijo_def merit_max_def G_output_def
  stage_commit_def stage_gLag_def stage_bfgs_def bfgs_update_def powell_omega_def damp_yk_def
  rank2_def diag_diag_def mul_def inner_prod_def norm_1_def elem_def eye_dense_def
  stage_kkt_def primal_infeasibility_def sum_violation_def add_violation_def sum_from_zero_def
  stage_exit_def callback_aborts_def callback_answer_def initial_state_def

lemmas example_defs =
  power_fx_def box_qp_1d_def default_options_def box_input_def qp_slots_def qp_results_def
  line_fx_def eq_qp_1d_def line_input_def line_options_def numeral_2_eq_2 max_def min_def

lemma map_result_Inr:
  assumes "map_option (map_sum id f) x = Some (Inr v)"
  obtains y where "x = Some (Inr y)" and "f y = v"
proof (cases x)
  case None
  with assms show ?thesis by simp
next
  case (Some z)
  with assms show ?thesis by (cases z) (auto intro: that)
qed

lemma line_first_pass:
  "map_option (map_sum id (\<lambda>(s', ex). (st_qp_in s', st_qp_out s', st_sigma s', st_x s', ex)))
     (sqp_iteration line_fx line_options line_input
        (initial_state line_options line_input (qp_slots 1) qp_results))
   = Some (Inr (\<lparr>QP_H = [[(0, Fin 2)]], QP_G = [Fin 4], QP_A = [[(0, Fin 2)]],
                  QP_LBA = [Fin (- 2)], QP_UBA = [Fin (- 2)], QP_LBX = [NInf],
                  QP_UBX = [Fin 8], QP_X_INIT = [Fin 0]\<rparr>,
                \<lparr>QP_PRIMAL = [Fin (- 1)], QP_LAMBDA_A = [Fin (- 1)], QP_LAMBDA_X = [Fin 0]\<rparr>,
                Fin (4548635623644201 / 2 ^ 52), [Fin 1], Some Converged))"
  by (simp add: stage_defs example_defs line_search.simps Let_def upt_0_1 double_evals)

theorem qp_bounds_shifted_witness:
  "length (NLP_X_INIT line_input) = n_dim line_options
   \<and> length (NLP_LBX line_input) = n_dim line_options
   \<and> length (NLP_UBX line_input) = n_dim line_options
   \<and> length (QP_LBX (qp_slots 1)) = n_dim line_options
   \<and> length (QP_UBX (qp_slots 1)) = n_dim line_options
   \<and> reachable line_fx line_options line_input
        (initial_state line_options line_input (qp_slots 1) qp_results)
        (initial_state line_options line_input (qp_slots 1) qp_results)
   \<and> 0 < m_dim line_options \<and> G_fx line_fx = Some (\<lambda>x. [dbl 2 * x ! 0])
   \<and> st_x (initial_state line_options line_input (qp_slots 1) qp_results) = [Fin 2]
   \<and> NLP_LBX line_input = [NInf] \<and> NLP_UBX line_input = [Fin 10]
   \<and> NLP_LBG line_input = [Fin 2] \<and> NLP_UBG line_input = [Fin 2]
   \<and> (let b = before_line_search line_fx line_options line_input
                 (initial_state line_options line_input (qp_slots 1) qp_results)
      in QP_LBX (st_qp_in b) = [NInf] \<and> QP_UBX (st_qp_in b) = [Fin 8]
       \<and> QP_LBA (st_qp_in b) = [Fin (- 2)] \<and> QP_UBA (st_qp_in b) = [Fin (- 2)]
       \<and> st_qp_out b = qp_solver line_fx (st_qp_in b))
   \<and> map_option (map_sum id (\<lambda>(s', ex). (QP_LBX (st_qp_in s'), QP_UBX (st_qp_in s'),
                               QP_LBA (st_qp_in s'), QP_UBA (st_qp_in s'))))
        (sqp_iteration line_fx line_options line_input
           (initial_state line_options line_input (qp_slots 1) qp_results))
      = Some (Inr ([NInf], [Fin 8], [Fin (- 2)], [Fin (- 2)]))"
proof -
  let ?s0 = "initial_state line_options line_input (qp_slots 1) qp_results"
  let ?b = "before_line_search line_fx line_options line_input ?s0"
  have l: "length (NLP_X_INIT line_input) = n_dim line_options"
    "length (NLP_LBX line_input) = n_dim line_options"
    "length (NLP_UBX line_input) = n_dim line_options"
    "length (QP_LBX (qp_slots 1)) = n_dim line_options"
    "length (QP_UBX (qp_slots 1)) = n_dim line_options"
    by (simp_all add: example_defs)
  have r: "reachable line_fx line_options line_input ?s0 ?s0" by (rule reachable.start)
  have m: "0 < m_dim line_options" and g: "G_fx line_fx = Some (\<lambda>x. [dbl 2 * x ! 0])"
    by (simp_all add: example_defs)
  have x0: "st_x ?s0 = [Fin 2]" "NLP_LBX line_input = [NInf]" "NLP_UBX line_input = [Fin 10]"
    "NLP_LBG line_input = [Fin 2]" "NLP_UBG line_input = [Fin 2]"
    by (simp_all add: initial_state_def example_defs double_evals)
  note t = qp_bounds_shifted [OF l r, unfolded Let_def]
  from t have "QP_LBX (st_qp_in ?b) = map2 (-) (NLP_LBX line_input) (st_x ?s0)"
    and "QP_UBX (st_qp_in ?b) = map2 (-) (NLP_UBX line_input) (st_x ?s0)"
    and o: "st_qp_out ?b = qp_solver line_fx (st_qp_in ?b)"
    by blast+
  then have bx: "QP_LBX (st_qp_in ?b) = [NInf]" "QP_UBX (st_qp_in ?b) = [Fin 8]"
    unfolding x0 by (simp_all add: double_evals)
  from t m g have "QP_LBA (st_qp_in ?b) = map2 (-) (NLP_LBG line_input) [dbl 2 * st_x ?s0 ! 0]"
    and "QP_UBA (st_qp_in ?b) = map2 (-) (NLP_UBG line_input) [dbl 2 * st_x ?s0 ! 0]"
    by blast+
  then have ba: "QP_LBA (st_qp_in ?b) = [Fin (- 2)]" "QP_UBA (st_qp_in ?b) = [Fin (- 2)]"
    unfolding x0 by (simp_all add: double_evals)
  from line_first_pass have
    "map_option (map_sum id (\<lambda>(s', ex). (QP_LBX (st_qp_in s'), QP_UBX (st_qp_in s'),
                               QP_LBA (st_qp_in s'), QP_UBA (st_qp_in s'))))
        (sqp_iteration line_fx line_options line_input ?s0)
      = Some (Inr ([NInf], [Fin 8], [Fin (- 2)], [Fin (- 2)]))"
    by (auto simp: map_sum_def split: sum.splits)
  with l r m g x0 bx ba o show ?thesis by (simp add: Let_def)
qed

section \<open>The penalty parameter only grows\<close>

text \<open>
  C7. Within one call of \<open>evaluate\<close> the penalty parameter starts at \<open>0\<close>. In a pass
  of the main loop that starts with the value \<open>sigma\<close>, the QP is solved and then, for
  the duals \<open>mu_qp[0]\<close>, ..., \<open>mu_qp[m_ - 1]\<close> of the general constraints in this
  order, the parameter is set to the double product \<open>|mu_qp[j]| * 1.01\<close> whenever
  \<open>|mu_qp[j]|\<close> exceeds its current value; this never lowers a value that is not NaN,
  and nothing else in the pass changes it. The duals \<open>mu_x_qp\<close> of the bounds have no
  influence on it. In a run it is therefore never negative (and never NaN) and never
  decreases from one pass to a later one.
\<close>

theorem sigma_monotone:
  "st_sigma (initial_state opts inp qp0 out0) = 0
   \<and> (let bl = before_line_search fx opts inp s;
           mu_qp = QP_LAMBDA_A (qp_solver fx (st_qp_in bl))
       in st_sigma bl =
            foldl (\<lambda>sigma mu. if sigma < \<bar>mu\<bar> then \<bar>mu\<bar> * dbl 1.01 else sigma) (st_sigma s)
              (map (\<lambda>j. mu_qp ! j) [0..<m_dim opts])
        \<and> (st_sigma s \<noteq> NaN \<longrightarrow> st_sigma s \<le> st_sigma bl)
        \<and> (\<forall>s' ex. sqp_iteration fx opts inp s = Some (Inr (s', ex)) \<longrightarrow>
              st_sigma s' = st_sigma bl))
   \<and> st_sigma (stage_penalty opts (u\<lparr>st_qp_out := (st_qp_out u)\<lparr>QP_LAMBDA_X := mu_x_qp\<rparr>\<rparr>))
       = st_sigma (stage_penalty opts u)
   \<and> (reachable fx opts inp (initial_state opts inp qp0 out0) a \<longrightarrow>
        0 \<le> st_sigma a \<and> st_sigma a \<noteq> NaN)
   \<and> (reachable fx opts inp (initial_state opts inp qp0 out0) a \<and> reachable fx opts inp a b \<longrightarrow>
        st_sigma a \<le> st_sigma b)"
proof -
  define bl where "bl = before_line_search fx opts inp s"
  have init: "st_sigma (initial_state opts inp qp0 out0) = 0"
    by (simp add: initial_state_def)
  have upd: "st_sigma bl =
      foldl (\<lambda>sigma mu. if sigma < \<bar>mu\<bar> then \<bar>mu\<bar> * dbl 1.01 else sigma) (st_sigma s)
        (map (\<lambda>j. QP_LAMBDA_A (qp_solver fx (st_qp_in bl)) ! j) [0..<m_dim opts])"
    unfolding bl_def
    by (simp only: before_line_search_sigma before_line_search_qp_out [symmetric]
        penalty_update_foldl)
  have mono: "st_sigma s \<le> st_sigma bl" if "st_sigma s \<noteq> NaN"
    unfolding bl_def using penalty_update_mono [OF that]
    by (simp add: before_line_search_sigma)
  have rest: "st_sigma s' = st_sigma bl"
    if "sqp_iteration fx opts inp s = Some (Inr (s', ex))" for s' ex
    by (simp add: bl_def sqp_iteration_frame [OF that])
  have indep: "st_sigma (stage_penalty opts (u\<lparr>st_qp_out := (st_qp_out u)\<lparr>QP_LAMBDA_X := mu_x_qp\<rparr>\<rparr>))
       = st_sigma (stage_penalty opts u)"
    by (simp add: stage_penalty_def)
  have z: "(0 :: double) \<noteq> NaN" by (simp add: zero_double_def)
  have nonneg: "0 \<le> st_sigma a \<and> st_sigma a \<noteq> NaN"
    if "reachable fx opts inp (initial_state opts inp qp0 out0) a"
    using reachable_sigma_mono [OF that] init z by simp
  have later: "st_sigma a \<le> st_sigma b"
    if "reachable fx opts inp (initial_state opts inp qp0 out0) a \<and> reachable fx opts inp a b"
    using reachable_sigma_mono [of fx opts inp a b] nonneg that by blast
  from init upd mono rest indep nonneg later show ?thesis
    unfolding Let_def bl_def [symmetric] by blast
qed

theorem sigma_monotone_witness:
  "(let bl = before_line_search line_fx line_options line_input
              (initial_state line_options line_input (qp_slots 1) qp_results)
    in QP_LAMBDA_A (qp_solver line_fx (st_qp_in bl)) = [Fin (- 1)]
     \<and> st_sigma bl = (if Fin 0 < \<bar>Fin (- 1)\<bar> then \<bar>Fin (- 1)\<bar> * dbl 1.01 else Fin 0)
     \<and> st_sigma bl = Fin (4548635623644201 / 2 ^ 52)
     \<and> Fin 0 \<le> st_sigma bl)
   \<and> map_option (map_sum id (\<lambda>(s', ex). st_sigma s'))
       (sqp_iteration line_fx line_options line_input
          (initial_state line_options line_input (qp_slots 1) qp_results))
     = Some (Inr (Fin (4548635623644201 / 2 ^ 52)))
   \<and> reachable line_fx line_options line_input
        (initial_state line_options line_input (qp_slots 1) qp_results)
        (initial_state line_options line_input (qp_slots 1) qp_results)
   \<and> st_sigma (initial_state line_options line_input (qp_slots 1) qp_results) = Fin 0"
proof -
  let ?s0 = "initial_state line_options line_input (qp_slots 1) qp_results"
  let ?bl = "before_line_search line_fx line_options line_input ?s0"
  from line_first_pass obtain y where
    y: "sqp_iteration line_fx line_options line_input ?s0 = Some (Inr y)"
      "(\<lambda>(s', ex). (st_qp_in s', st_qp_out s', st_sigma s', st_x s', ex)) y =
         (\<lparr>QP_H = [[(0, Fin 2)]], QP_G = [Fin 4], QP_A = [[(0, Fin 2)]],
            QP_LBA = [Fin (- 2)], QP_UBA = [Fin (- 2)], QP_LBX = [NInf],
            QP_UBX = [Fin 8], QP_X_INIT = [Fin 0]\<rparr>,
          \<lparr>QP_PRIMAL = [Fin (- 1)], QP_LAMBDA_A = [Fin (- 1)], QP_LAMBDA_X = [Fin 0]\<rparr>,
          Fin (4548635623644201 / 2 ^ 52), [Fin 1], Some Converged)"
    by (rule map_result_Inr)
  obtain s' ex where y': "y = (s', ex)" by (cases y)
  from y have
    it: "sqp_iteration line_fx line_options line_input ?s0 = Some (Inr (s', ex))"
    and out: "st_qp_out s' =
      \<lparr>QP_PRIMAL = [Fin (- 1)], QP_LAMBDA_A = [Fin (- 1)], QP_LAMBDA_X = [Fin 0]\<rparr>"
    by (simp_all add: y')
  have r: "reachable line_fx line_options line_input ?s0 ?s0" by (rule reachable.start)
  have mu: "QP_LAMBDA_A (qp_solver line_fx (st_qp_in ?bl)) = [Fin (- 1)]"
    using out by (simp add: sqp_iteration_frame [OF it] before_line_search_qp_out [symmetric])
  have m: "m_dim line_options = 1" by (simp add: example_defs)
  note t = sigma_monotone [where opts = line_options and inp = line_input and ?qp0.0 = "qp_slots 1"
      and ?out0.0 = qp_results and fx = line_fx and s = ?s0 and u = ?s0
      and mu_x_qp = "[]" and a = ?s0 and b = ?s0, unfolded Let_def]
  from t have s0: "st_sigma ?s0 = Fin 0" unfolding zero_double_def by blast
  from t have "st_sigma ?bl =
      foldl (\<lambda>sigma mu. if sigma < \<bar>mu\<bar> then \<bar>mu\<bar> * dbl 1.01 else sigma) (st_sigma ?s0)
        (map (\<lambda>j. QP_LAMBDA_A (qp_solver line_fx (st_qp_in ?bl)) ! j) [0..<m_dim line_options])"
    by blast
  then have bl: "st_sigma ?bl = (if Fin 0 < \<bar>Fin (- 1)\<bar> then \<bar>Fin (- 1)\<bar> * dbl 1.01 else Fin 0)"
    unfolding mu m s0 by (simp add: upt_0_1)
  then have v: "st_sigma ?bl = Fin (4548635623644201 / 2 ^ 52)"
    by (simp add: double_evals)
  from t have "st_sigma ?s0 \<noteq> NaN \<longrightarrow> st_sigma ?s0 \<le> st_sigma ?bl" by blast
  moreover have "st_sigma ?s0 \<noteq> NaN" unfolding s0 by simp
  ultimately have "st_sigma ?s0 \<le> st_sigma ?bl" by blast
  then have ge: "Fin 0 \<le> st_sigma ?bl" unfolding s0 .
  from t it have "st_sigma s' = st_sigma ?bl" by blast
  with v it have "map_option (map_sum id (\<lambda>(s', ex). st_sigma s'))
       (sqp_iteration line_fx line_options line_input ?s0)
     = Some (Inr (Fin (4548635623644201 / 2 ^ 52)))"
    by simp
  with mu bl v ge r s0 show ?thesis by (simp add: Let_def)
qed

section \<open>The exits of the main loop\<close>





section \<open>Primal infeasibility without constraint function\<close>

lemma pow_numeral: "pow x (numeral k) = x * pow x (pred_numeral k)"
  by (simp add: numeral_eq_Suc)

lemma primal_infeasibility_G_null:
  "G_fx fx = None \<Longrightarrow> primal_infeasibility fx opts inp s = 0"
  by (simp add: primal_infeasibility_def zero_double_def fl_0)

lemma primal_infeasibility_G_present:
  "G_fx fx \<noteq> None \<Longrightarrow>
   primal_infeasibility fx opts inp s =
     sum_violation (m_dim opts) (NLP_LBG inp) (NLP_UBG inp) (st_gk_cand s)
     + sum_violation (n_dim opts) (NLP_LBX inp) (NLP_UBX inp) (st_x s)"
  by (simp add: primal_infeasibility_def)

text \<open>
  C1 says that with \<open>G_\<close> absent the primal infeasibility of the convergence test is
  the sum of the bound violations of \<open>x\<close>. The loop over the bounds (lines 521 to
  534) stands inside the block guarded by \<^verbatim>\<open>!G_.isNull()\<close>, so without \<open>G_\<close> the
  value is \<open>0\<close> whatever \<open>x\<close> is. The run: minimise \<open>-x\<close> on \<open>[0, 1]\<close> from \<open>x = 3\<close>
  with the default options. The line search fails three times and the first pass ends at
  \<open>x = 3 + 0.64 * (-2)\<close>, in doubles \<open>1.7199999999999998\<close>, whose bound violation is
  \<open>0.7199999999999998\<close>, and reports \<open>pr_inf = 0\<close>.
\<close>

theorem pr_inf_without_G:
  "G_fx (power_fx (- 1) 1) = None
   \<and> map_option (map_sum id (\<lambda>(s', ex). (st_x s', st_pr_inf s',
          sum_violation 1 (NLP_LBX (box_input 3 0 1)) (NLP_UBX (box_input 3 0 1)) (st_x s'))))
       (sqp_iteration (power_fx (- 1) 1) (default_options 1 0) (box_input 3 0 1)
          (initial_state (default_options 1 0) (box_input 3 0 1) (qp_slots 1) qp_results))
     = Some (Inr ([Fin (1936547839769313 / 2 ^ 50)], Fin 0, Fin (810647932926689 / 2 ^ 50)))"
  by (simp add: stage_defs example_defs pow_numeral line_search.simps Let_def upt_0_1 double_evals)

section \<open>A line search with a budget of one trial\<close>

lemma line_search_one_trial:
  assumes "maxiter_ls opts = 1"
  shows "line_search fx opts inp s 1 1 =
     Some \<lparr>ls_t = (if armijo fx opts inp s 1 then 1 else beta opts * 1), ls_trials = 1,
            ls_x_cand = map (\<lambda>i. st_x s ! i + 1 * st_p s ! i) [0..<n_dim opts],
            ls_fk_cand = F_eval fx (map (\<lambda>i. st_x s ! i + 1 * st_p s ! i) [0..<n_dim opts]),
            ls_gk_cand = G_output fx (map (\<lambda>i. st_x s ! i + 1 * st_p s ! i) [0..<n_dim opts])\<rparr>"
  by (subst line_search.simps) (simp add: assms trial_def Let_def)

text \<open>
  C4 says that with \<open>maxiter_ls = 1\<close> the full step is taken and the stepsize \<open>t\<close>
  used afterwards is \<open>1\<close>, whether or not the Armijo test held. The candidate is
  indeed \<open>x + 1 * p\<close> (lemma \<open>line_search_one_trial\<close>), but line 434 multiplies \<open>t\<close>
  by \<open>beta\<close> before line 438 leaves the loop, so after a failed test \<open>t = beta\<close>
  (for any budget, lemma \<open>line_search_outcome\<close>). The
  run: minimise \<open>x\<^sup>4\<close> on \<open>[-2, 100]\<close> from \<open>x = 1\<close> with \<open>maxiter_ls = 1\<close>. The step
  is \<open>p = -3\<close>, the new iterate is \<open>1 + 1 * (-3) = -2\<close>, and yet \<open>t\<close> is the double
  \<open>0.8\<close>: the log shows the stepsize \<open>0.8\<close> and the dual of the bound becomes
  \<open>0.8 * (-1)\<close>.
\<close>

theorem stepsize_after_failed_single_trial:
  "maxiter_ls ((default_options 1 0)\<lparr>maxiter_ls := 1\<rparr>) = 1
   \<and> map_option (map_sum id (\<lambda>(s', ex). (st_x_old s', st_p s', st_x s', st_t s',
          QP_LAMBDA_X (st_qp_out s'), st_mu_x s', last (st_cout s'))))
       (sqp_iteration (power_fx 1 4) ((default_options 1 0)\<lparr>maxiter_ls := 1\<rparr>)
          (box_input 1 (- 2) 100)
          (initial_state ((default_options 1 0)\<lparr>maxiter_ls := 1\<rparr>) (box_input 1 (- 2) 100)
             (qp_slots 1) qp_results))
     = Some (Inr ([Fin 1], [Fin (- 3)], [Fin (- 2)], Fin (3602879701896397 / 2 ^ 52),
             [Fin (- 1)], [Fin (- (3602879701896397 / 2 ^ 52))],
             Iterate \<lparr>log_it = 1, log_obj = Fin 16, log_pr_inf = Fin 0,
                      log_du_inf = Fin (4616189618054758 / 2 ^ 47),
                      log_corr_norm = Fin 3, log_stepsize = Fin (3602879701896397 / 2 ^ 52),
                      log_ls_trials = 1, log_ls_success = CHR ''F''\<rparr>))"
  by (simp add: stage_defs example_defs pow_numeral line_search.simps Let_def upt_0_1 double_evals)

section \<open>The marker of a failed line search\<close>

lemma marker_iff_last_trial:
  "(\<exists>l. last (st_cout (stage_kkt fx opts inp s)) = Iterate l
        \<and> (log_ls_success l = CHR ''F'') = (st_ls_counter s = maxiter_ls opts))"
  by (simp add: stage_kkt_def Let_def)

text \<open>
  C5 says that the log line carries the marker \<open>F\<close> exactly when the budget of the
  line search ran out without the Armijo test being met. Line 553 prints \<open>F\<close>
  whenever the counter equals \<open>maxiter_ls\<close> (lemma \<open>marker_iff_last_trial\<close>), which
  is so after a search that ran out (lemma \<open>line_search_outcome\<close>) but also when the
  last trial allowed was accepted. The run: minimise \<open>x\<close> on \<open>[0, 1]\<close> from
  \<open>x = 1\<close> with \<open>maxiter_ls = 1\<close>. The Armijo test holds at \<open>t = 1\<close>, the step is
  accepted with \<open>t = 1\<close>, and the log line reads \<open>1F\<close>.
\<close>

theorem marker_after_accepted_trial:
  "armijo (power_fx 1 1) ((default_options 1 0)\<lparr>maxiter_ls := 1\<rparr>) (box_input 1 0 1)
     (before_line_search (power_fx 1 1) ((default_options 1 0)\<lparr>maxiter_ls := 1\<rparr>)
        (box_input 1 0 1)
        (initial_state ((default_options 1 0)\<lparr>maxiter_ls := 1\<rparr>) (box_input 1 0 1)
           (qp_slots 1) qp_results)) 1
   \<and> map_option (map_sum id (\<lambda>(s', ex). (st_x s', st_t s', last (st_cout s'))))
       (sqp_iteration (power_fx 1 1) ((default_options 1 0)\<lparr>maxiter_ls := 1\<rparr>)
          (box_input 1 0 1)
          (initial_state ((default_options 1 0)\<lparr>maxiter_ls := 1\<rparr>) (box_input 1 0 1)
             (qp_slots 1) qp_results))
     = Some (Inr ([Fin 0], Fin 1,
             Iterate \<lparr>log_it = 1, log_obj = Fin 0, log_pr_inf = Fin 0, log_du_inf = Fin 1,
                      log_corr_norm = Fin 1, log_stepsize = Fin 1, log_ls_trials = 1,
                      log_ls_success = CHR ''F''\<rparr>))"
  by (simp add: stage_defs example_defs pow_numeral line_search.simps Let_def upt_0_1 double_evals)

section \<open>Symbolic evaluation returns after the copy of the seeds\<close>

lemma length_fold_update:
  "length (fold (\<lambda>d M. M[d := h d M]) ds M) = length M"
  by (induction ds arbitrary: M) simp_all

lemma fold_update_untouched:
  "d \<notin> set ds \<Longrightarrow> fold (\<lambda>e M. M[e := h e (M ! e)]) ds M ! d = M ! d"
  by (induction ds arbitrary: M) auto

lemma fold_update_nth:
  "distinct ds \<Longrightarrow> d \<in> set ds \<Longrightarrow> d < length M \<Longrightarrow>
   fold (\<lambda>e M. M[e := h e (M ! e)]) ds M ! d = h d (M ! d)"
proof (induction ds arbitrary: M)
  case Nil
  then show ?case by simp
next
  case (Cons e ds)
  show ?case
  proof (cases "e = d")
    case True
    with Cons.prems have "d \<notin> set ds" by simp
    then show ?thesis using True Cons.prems(3) by (simp add: fold_update_untouched)
  next
    case False
    with Cons.prems have "d \<in> set ds" "distinct ds" by simp_all
    from Cons.IH [OF this(2) this(1), of "M[e := h e (M ! e)]"] Cons.prems(3) False
    show ?thesis by simp
  qed
qed

lemma length_resize: "length (resize k dflt xs) = k"
  by (simp add: resize_def)

lemma copy_seed_row_alt:
  "copy_seed_row input seeds row =
     fold (\<lambda>iind r. r[iind := (case seeds ! iind of None \<Rightarrow> r ! iind | Some v \<Rightarrow> v)])
       [0..<length input] (resize (length input) MX_null row)"
proof -
  have "(\<lambda>iind r. case seeds ! iind of None \<Rightarrow> r | Some v \<Rightarrow> r[iind := v]) =
        (\<lambda>iind (r :: MX list). r[iind := (case seeds ! iind of None \<Rightarrow> r ! iind | Some v \<Rightarrow> v)])"
    by (auto simp: fun_eq_iff split: option.splits)
  then show ?thesis by (simp add: copy_seed_row_def)
qed

lemma length_copy_seed_row: "length (copy_seed_row input seeds row) = length input"
  unfolding copy_seed_row_alt
  by (simp add: length_fold_update [where h = "\<lambda>iind r. case seeds ! iind of None \<Rightarrow> r ! iind | Some v \<Rightarrow> v"]
      length_resize)

lemma copy_seed_row_nth:
  assumes "iind < length input"
  shows "copy_seed_row input seeds row ! iind =
     (case seeds ! iind of None \<Rightarrow> resize (length input) MX_null row ! iind | Some v \<Rightarrow> v)"
  unfolding copy_seed_row_alt
  using assms
  by (simp add: fold_update_nth [where h = "\<lambda>iind old. case seeds ! iind of None \<Rightarrow> old | Some v \<Rightarrow> v"]
      length_resize)

lemma length_copy_seeds: "length (copy_seeds input fwdSeed nfwd member) = nfwd"
  by (simp add: copy_seeds_def length_resize
      length_fold_update [where h = "\<lambda>d M. copy_seed_row input (fwdSeed ! d) (M ! d)"])

lemma copy_seeds_nth:
  assumes "d < nfwd"
  shows "copy_seeds input fwdSeed nfwd member ! d =
     copy_seed_row input (fwdSeed ! d) (resize nfwd [] member ! d)"
  unfolding copy_seeds_def using assms
  by (simp add: fold_update_nth [where h = "\<lambda>d row. copy_seed_row input (fwdSeed ! d) row"]
      length_resize)

lemma return_skips_rest: "at_exit (and_then (and_then (Running a) Returned) rest) = a"
  by (simp add: at_exit_def and_then_def)

text \<open>
  C9. For every call, \<open>Evaluation::evaluateMX\<close> leaves the function at line 162 in
  the state in which the copy of the forward seeds has left it: whatever statements
  follow the \<^verbatim>\<open>return\<close> have no effect (the symbolic propagation is dead code); the
  expressions behind \<open>output\<close>, \<open>fwdSens\<close> and \<open>adjSens\<close> are as before the call; the
  member \<open>fwdSeed_\<close> has one row per forward direction, each as long as \<open>input\<close>,
  and holds a copy of every forward seed that is not null.
\<close>

theorem evaluateMX_returns_after_copy:
  "Evaluation_evaluateMX input fwdSeed adjSeed output_given fr =
     fr\<lparr>fwdSeed_member :=
          copy_seeds input fwdSeed (length (fwdSens_arg fr)) (fwdSeed_member fr)\<rparr>
   \<and> (\<forall>rest. at_exit (and_then (and_then
          (Running (fr\<lparr>fwdSeed_member :=
             copy_seeds input fwdSeed (length (fwdSens_arg fr)) (fwdSeed_member fr)\<rparr>))
          Returned) rest) = Evaluation_evaluateMX input fwdSeed adjSeed output_given fr)
   \<and> output_arg (Evaluation_evaluateMX input fwdSeed adjSeed output_given fr) = output_arg fr
   \<and> fwdSens_arg (Evaluation_evaluateMX input fwdSeed adjSeed output_given fr) = fwdSens_arg fr
   \<and> adjSens_arg (Evaluation_evaluateMX input fwdSeed adjSeed output_given fr) = adjSens_arg fr
   \<and> length (fwdSeed_member (Evaluation_evaluateMX input fwdSeed adjSeed output_given fr))
       = length (fwdSens_arg fr)
   \<and> (\<forall>d<length (fwdSens_arg fr).
        length (fwdSeed_member (Evaluation_evaluateMX input fwdSeed adjSeed output_given fr) ! d)
          = length input
        \<and> (\<forall>iind<length input. \<forall>v. fwdSeed ! d ! iind = Some v \<longrightarrow>
             fwdSeed_member (Evaluation_evaluateMX input fwdSeed adjSeed output_given fr)
               ! d ! iind = v))"
proof -
  let ?fr = "fr\<lparr>fwdSeed_member :=
          copy_seeds input fwdSeed (length (fwdSens_arg fr)) (fwdSeed_member fr)\<rparr>"
  have eq: "Evaluation_evaluateMX input fwdSeed adjSeed output_given fr = ?fr"
    by (simp add: Evaluation_evaluateMX_def return_skips_rest)
  have rows: "length (fwdSeed_member ?fr ! d) = length input
      \<and> (\<forall>iind<length input. \<forall>v. fwdSeed ! d ! iind = Some v \<longrightarrow>
            fwdSeed_member ?fr ! d ! iind = v)"
    if "d < length (fwdSens_arg fr)" for d
    using that by (simp add: copy_seeds_nth length_copy_seed_row copy_seed_row_nth)
  show ?thesis
    unfolding eq using rows by (simp add: return_skips_rest length_copy_seeds)
qed

theorem evaluateMX_returns_after_copy_witness:
  "Evaluation_evaluateMX [Some (MX_symbol ''x'')] [[Some (MX_symbol ''dx'')]] [] False
      \<lparr>fwdSeed_member = [], output_arg = [Some MX_null], fwdSens_arg = [[Some MX_null]],
       adjSens_arg = []\<rparr>
     = \<lparr>fwdSeed_member = [[MX_symbol ''dx'']], output_arg = [Some MX_null],
        fwdSens_arg = [[Some MX_null]], adjSens_arg = []\<rparr>
   \<and> (0 :: nat) < length [[Some MX_null]] \<and> (0 :: nat) < length [Some (MX_symbol ''x'')]
   \<and> [[Some (MX_symbol ''dx'')]] ! 0 ! 0 = Some (MX_symbol ''dx'')
   \<and> fwdSens_arg (symbolic_propagation [Some (MX_symbol ''x'')] [[Some (MX_symbol ''dx'')]]
        \<lparr>fwdSeed_member = [[MX_symbol ''dx'']], output_arg = [Some MX_null],
         fwdSens_arg = [[Some MX_null]], adjSens_arg = []\<rparr>)
     = [[Some (MX_plus (MX_zeros 1 1)
               (MX_prod (MX_jacobian_reference (MX_call_output 0 [MX_symbol ''x'']) 0)
                  (MX_symbol ''dx'')))]]"
proof -
  let ?fr = "\<lparr>fwdSeed_member = [], output_arg = [Some MX_null],
      fwdSens_arg = [[Some MX_null]], adjSens_arg = []\<rparr>"
  let ?in = "[Some (MX_symbol ''x'')]" and ?seed = "[[Some (MX_symbol ''dx'')]]"
  note t = evaluateMX_returns_after_copy [of ?in ?seed "[]" False ?fr]
  note t3 = t [THEN conjunct2, THEN conjunct2, THEN conjunct1]
    and t4 = t [THEN conjunct2, THEN conjunct2, THEN conjunct2, THEN conjunct1]
    and t5 = t [THEN conjunct2, THEN conjunct2, THEN conjunct2, THEN conjunct2, THEN conjunct1]
    and t6 = t [THEN conjunct2, THEN conjunct2, THEN conjunct2, THEN conjunct2, THEN conjunct2,
        THEN conjunct1]
    and t7 = t [THEN conjunct2, THEN conjunct2, THEN conjunct2, THEN conjunct2, THEN conjunct2,
        THEN conjunct2]
  have frame: "output_arg (Evaluation_evaluateMX ?in ?seed [] False ?fr) = [Some MX_null]"
    "fwdSens_arg (Evaluation_evaluateMX ?in ?seed [] False ?fr) = [[Some MX_null]]"
    "adjSens_arg (Evaluation_evaluateMX ?in ?seed [] False ?fr) = []"
    using t3 t4 t5 by simp_all
  have len: "length (fwdSeed_member (Evaluation_evaluateMX ?in ?seed [] False ?fr)) = 1"
    using t6 by simp
  have row: "length (fwdSeed_member (Evaluation_evaluateMX ?in ?seed [] False ?fr) ! 0) = 1"
    "fwdSeed_member (Evaluation_evaluateMX ?in ?seed [] False ?fr) ! 0 ! 0 = MX_symbol ''dx''"
    using t7 by simp_all
  have mem: "fwdSeed_member (Evaluation_evaluateMX ?in ?seed [] False ?fr) = [[MX_symbol ''dx'']]"
    using len row by (auto simp: length_Suc_conv)
  have "Evaluation_evaluateMX ?in ?seed [] False ?fr =
      \<lparr>fwdSeed_member = [[MX_symbol ''dx'']], output_arg = [Some MX_null],
        fwdSens_arg = [[Some MX_null]], adjSens_arg = []\<rparr>"
    using frame mem by (cases "Evaluation_evaluateMX ?in ?seed [] False ?fr") simp
  moreover have "fwdSens_arg (symbolic_propagation ?in ?seed
        \<lparr>fwdSeed_member = [[MX_symbol ''dx'']], output_arg = [Some MX_null],
         fwdSens_arg = [[Some MX_null]], adjSens_arg = []\<rparr>)
     = [[Some (MX_plus (MX_zeros 1 1)
               (MX_prod (MX_jacobian_reference (MX_call_output 0 [MX_symbol ''x'']) 0)
                  (MX_symbol ''dx'')))]]"
    by (simp add: symbolic_propagation_def propagated_def upt_0_1)
  ultimately show ?thesis by simp
qed

section \<open>Numerical evaluation: what is overwritten and what is accumulated\<close>





























end
